theory Spec2Isabelle
  imports Main "HOL-Library.Multiset" "HOL-Library.Char_ord" "HOL-Library.List_Lexorder"
begin

section \<open>Data model\<close>

text \<open>
  A layer as the request body carries it: \<open>{fileName, zPos, variant}\<close>. \<open>fileName\<close> is a
  string (the empty string is the falsy case of \<open>!layer.fileName\<close>); \<open>zPos\<close> and \<open>variant\<close>
  may be absent (\<open>None\<close> is JavaScript's \<open>undefined\<close>, so \<open>typeof zPos !== 'number'\<close> is
  \<open>zPos = None\<close>). Numbers are the integers a JSON body writes as such. A layer object
  carries these three properties and no others, in this order.
\<close>

record layer =
  fileName :: string
  zPos :: "int option"
  variant :: "string option"

text \<open>
  The layer definition \<open>{bodyTypeName, layers}\<close>. \<open>layers = None\<close> stands for a \<open>layers\<close>
  property that is missing or not an array.
\<close>

record layerDefinition =
  bodyTypeName :: string
  layers :: "layer list option"

section \<open>JavaScript library functions\<close>

text \<open>
  \<open>Array.prototype.sort(cmp)\<close>: a stable sort; an element moves in front of another only
  when the comparator says it is strictly smaller. A comparator result of \<open>NaN\<close> counts as
  \<open>0\<close>. The model is insertion from the right end; every stable sort agrees with it on a
  consistent comparator.
\<close>

fun insertBy :: "('a \<Rightarrow> 'a \<Rightarrow> int) \<Rightarrow> 'a \<Rightarrow> 'a list \<Rightarrow> 'a list" where
  "insertBy cmp x [] = [x]"
| "insertBy cmp x (y # ys) = (if cmp x y \<le> 0 then x # y # ys else y # insertBy cmp x ys)"

definition jsSort :: "('a \<Rightarrow> 'a \<Rightarrow> int) \<Rightarrow> 'a list \<Rightarrow> 'a list" where
  "jsSort cmp xs = foldr (insertBy cmp) xs []"

text \<open>
  \<open>String.prototype.localeCompare\<close> answers \<open>0\<close> on equal strings. On two different
  strings the collation decides: it may put either first, and it may answer \<open>0\<close> as well
  (for strings that differ in characters it ignores). The model takes the lexicographic
  order of the character codes there; the theorems of this theory sort by file name only
  lists whose file names are equal, or leave the list arbitrary, and do not depend on that
  choice.
\<close>

definition localeCompare :: "string \<Rightarrow> string \<Rightarrow> int" where
  "localeCompare a b = (if a = b then 0 else if a < b then - 1 else 1)"

text \<open>\<open>String.prototype.endsWith\<close>.\<close>

definition endsWith :: "string \<Rightarrow> string \<Rightarrow> bool" where
  "endsWith s suf = (length suf \<le> length s \<and> drop (length s - length suf) s = suf)"

subsection \<open>JSON.stringify\<close>

definition hexDigit :: "nat \<Rightarrow> char" where
  "hexDigit n = (''0123456789abcdef'' ! n)"

definition digitChar :: "nat \<Rightarrow> char" where
  "digitChar n = (''0123456789'' ! n)"

text \<open>
  The escapes of a JSON string: the quote, the backslash, the five short forms and
  \<open>\u00XX\<close> for the other control characters.
\<close>

definition escapeChar :: "char \<Rightarrow> string" where
  "escapeChar c =
     (if c = CHR 0x22 then [CHR 0x5C, CHR 0x22]
      else if c = CHR 0x5C then [CHR 0x5C, CHR 0x5C]
      else if c = CHR 0x08 then [CHR 0x5C, CHR ''b'']
      else if c = CHR 0x09 then [CHR 0x5C, CHR ''t'']
      else if c = CHR 0x0A then [CHR 0x5C, CHR ''n'']
      else if c = CHR 0x0C then [CHR 0x5C, CHR ''f'']
      else if c = CHR 0x0D then [CHR 0x5C, CHR ''r'']
      else if (of_char c :: nat) < 32
        then [CHR 0x5C, CHR ''u'', CHR ''0'', CHR ''0'',
              hexDigit (of_char c div 16), hexDigit (of_char c mod 16)]
      else [c])"

definition quoteJSON :: "string \<Rightarrow> string" where
  "quoteJSON s = CHR 0x22 # concat (map escapeChar s) @ [CHR 0x22]"

fun showNat :: "nat \<Rightarrow> string" where
  "showNat n = (if n < 10 then [digitChar n] else showNat (n div 10) @ [digitChar (n mod 10)])"

declare showNat.simps [simp del]

definition showInt :: "int \<Rightarrow> string" where
  "showInt i = (if i < 0 then CHR ''-'' # showNat (nat (- i)) else showNat (nat i))"

text \<open>
  One layer object \<open>{fileName, zPos, variant}\<close>; a property whose value is \<open>undefined\<close> is
  left out.
\<close>

definition layerJSON :: "layer \<Rightarrow> string" where
  "layerJSON l =
     ''{'' @ quoteJSON ''fileName'' @ '':'' @ quoteJSON (fileName l)
     @ (case zPos l of None \<Rightarrow> [] | Some z \<Rightarrow> '','' @ quoteJSON ''zPos'' @ '':'' @ showInt z)
     @ (case variant l of None \<Rightarrow> [] | Some v \<Rightarrow> '','' @ quoteJSON ''variant'' @ '':'' @ quoteJSON v)
     @ ''}''"

fun elementsJSON :: "layer list \<Rightarrow> string" where
  "elementsJSON [] = []"
| "elementsJSON [l] = layerJSON l"
| "elementsJSON (l # m # ls) = layerJSON l @ '','' @ elementsJSON (m # ls)"

text \<open>\<open>JSON.stringify({ bodyTypeName, layers })\<close>.\<close>

definition stringify :: "string \<Rightarrow> layer list \<Rightarrow> string" where
  "stringify b ls =
     ''{'' @ quoteJSON ''bodyTypeName'' @ '':'' @ quoteJSON b @ '','' @ quoteJSON ''layers''
     @ '':['' @ elementsJSON ls @ '']}''"

section \<open>cache.js: the cache key\<close>

text \<open>
  \<open>[...layers].sort((a, b) => a.fileName.localeCompare(b.fileName))\<close>
\<close>

definition sortByFileName :: "layer list \<Rightarrow> layer list" where
  "sortByFileName ls = jsSort (\<lambda>a b. localeCompare (fileName a) (fileName b)) ls"

text \<open>
  \<open>cacheData\<close> serialised: the string that is hashed. The \<open>map\<close> of the source copies the
  three properties, which are all a \<open>layer\<close> has.
\<close>

definition cacheData :: "string \<Rightarrow> layer list \<Rightarrow> string" where
  "cacheData b ls = stringify b (sortByFileName ls)"

text \<open>
  \<open>generateCacheKey\<close>. The parameter \<open>digest\<close> is
  \<open>crypto.createHash('sha256').update(json).digest('hex')\<close>.
\<close>

definition generateCacheKey :: "(string \<Rightarrow> string) \<Rightarrow> string \<Rightarrow> layer list \<Rightarrow> string" where
  "generateCacheKey digest b ls = digest (cacheData b ls)"

text \<open>
  The key of the memory cache in \<open>server.js\<close>:
  \<open>JSON.stringify({ bodyTypeName, layers })\<close> on the request as it came.
\<close>

definition memoryKey :: "string \<Rightarrow> layer list \<Rightarrow> string" where
  "memoryKey b ls = stringify b ls"

section \<open>The cache directory\<close>

text \<open>
  The directory \<open>cache/\<close> as \<open>fs.promises\<close> sees it: the entries in the order \<open>readdir\<close>
  lists them, each with its content, and the operations on which the storage medium
  answers with an I/O error (a directory that cannot be read, a full disk, an entry that
  is not a regular file). \<open>WriteFile name\<close> is a \<open>writeFile\<close> that fails before the file
  is opened; \<open>TruncatedWrite name n\<close> is one that fails after the file was created or
  truncated and \<open>n\<close> bytes were written.
\<close>

datatype fsop =
    Readdir | ReadFile string | WriteFile string | TruncatedWrite string nat
  | Unlink string | Mkdir

datatype errno = ENOENT | EIO

record disk =
  files :: "(string \<times> string) list"
  faults :: "fsop list"

definition fs_readFile :: "disk \<Rightarrow> string \<Rightarrow> errno + string" where
  "fs_readFile d name =
     (if ReadFile name \<in> set (faults d) then Inl EIO
      else case map_of (files d) name of None \<Rightarrow> Inl ENOENT | Some content \<Rightarrow> Inr content)"

fun putEntry :: "string \<Rightarrow> string \<Rightarrow> (string \<times> string) list \<Rightarrow> (string \<times> string) list" where
  "putEntry name content [] = [(name, content)]"
| "putEntry name content ((n, c) # es) =
     (if n = name then (n, content) # es else (n, c) # putEntry name content es)"

fun writtenBeforeError :: "fsop list \<Rightarrow> string \<Rightarrow> nat option" where
  "writtenBeforeError [] name = None"
| "writtenBeforeError (TruncatedWrite f n # ops) name =
     (if f = name then Some n else writtenBeforeError ops name)"
| "writtenBeforeError (other # ops) name = writtenBeforeError ops name"

text \<open>
  \<open>fs.writeFile\<close> is not atomic: the error, if any, and the directory it leaves. A write
  that fails part-way leaves the entry with the bytes written so far.
\<close>

definition fs_writeFile :: "disk \<Rightarrow> string \<Rightarrow> string \<Rightarrow> errno option \<times> disk" where
  "fs_writeFile d name content =
     (if WriteFile name \<in> set (faults d) then (Some EIO, d)
      else case writtenBeforeError (faults d) name of
             Some n \<Rightarrow> (Some EIO, d\<lparr>files := putEntry name (take n content) (files d)\<rparr>)
           | None \<Rightarrow> (None, d\<lparr>files := putEntry name content (files d)\<rparr>))"

definition fs_mkdir :: "disk \<Rightarrow> errno + disk" where
  "fs_mkdir d = (if Mkdir \<in> set (faults d) then Inl EIO else Inr d)"

definition fs_readdir :: "disk \<Rightarrow> errno + string list" where
  "fs_readdir d = (if Readdir \<in> set (faults d) then Inl EIO else Inr (map fst (files d)))"

definition fs_unlink :: "disk \<Rightarrow> string \<Rightarrow> errno + disk" where
  "fs_unlink d name =
     (if Unlink name \<in> set (faults d) then Inl EIO
      else if name \<in> set (map fst (files d))
        then Inr (d\<lparr>files := filter (\<lambda>e. fst e \<noteq> name) (files d)\<rparr>)
      else Inl ENOENT)"

section \<open>cache.js: the disk cache\<close>

text \<open>\<open>getCachePath\<close>: the entry \<open>${hash}.png\<close> of the cache directory.\<close>

definition getCachePath :: "string \<Rightarrow> string" where
  "getCachePath h = h @ ''.png''"

record cacheLookup =
  buffer :: "string option"
  hash :: "string option"
  hit :: bool

text \<open>
  \<open>getCachedSpritesheet\<close>: everything thrown inside the \<open>try\<close> (the spread of a \<open>layers\<close>
  that is not an array, a failing \<open>readFile\<close>) ends in the same miss.
\<close>

definition getCachedSpritesheet ::
  "(string \<Rightarrow> string) \<Rightarrow> disk \<Rightarrow> string \<Rightarrow> layer list option \<Rightarrow> cacheLookup" where
  "getCachedSpritesheet digest d b lso =
     (case lso of
        None \<Rightarrow> \<lparr>buffer = None, hash = None, hit = False\<rparr>
      | Some ls \<Rightarrow>
          (case fs_readFile d (getCachePath (generateCacheKey digest b ls)) of
             Inl err \<Rightarrow> \<lparr>buffer = None, hash = None, hit = False\<rparr>
           | Inr buf \<Rightarrow>
               \<lparr>buffer = Some buf, hash = Some (generateCacheKey digest b ls), hit = True\<rparr>))"

text \<open>
  \<open>saveCachedSpritesheet\<close>: the hash on success; on any error the \<open>catch\<close> writes to the
  console and returns \<open>null\<close>. The directory is returned as the operations left it.
\<close>

definition saveCachedSpritesheet ::
  "(string \<Rightarrow> string) \<Rightarrow> disk \<Rightarrow> string \<Rightarrow> layer list option \<Rightarrow> string \<Rightarrow> string option \<times> disk" where
  "saveCachedSpritesheet digest d b lso buf =
     (case lso of
        None \<Rightarrow> (None, d)
      | Some ls \<Rightarrow>
          (case fs_mkdir d of
             Inl err \<Rightarrow> (None, d)
           | Inr d1 \<Rightarrow>
               (case fs_writeFile d1 (getCachePath (generateCacheKey digest b ls)) buf of
                  (Some err, d2) \<Rightarrow> (None, d2)
                | (None, d2) \<Rightarrow> (Some (generateCacheKey digest b ls), d2))))"

text \<open>\<open>listCachedSpritesheets\<close>.\<close>

definition listCachedSpritesheets :: "disk \<Rightarrow> string list" where
  "listCachedSpritesheets d =
     (case fs_readdir d of Inl err \<Rightarrow> [] | Inr fs \<Rightarrow> filter (\<lambda>f. endsWith f ''.png'') fs)"

text \<open>
  The loop of \<open>clearCache\<close>: \<open>unlink\<close> one name after the other; the first error leaves
  the loop, with the entries before it already removed.
\<close>

fun unlinkAll :: "disk \<Rightarrow> string list \<Rightarrow> errno option \<times> disk" where
  "unlinkAll d [] = (None, d)"
| "unlinkAll d (f # fs) =
     (case fs_unlink d f of Inl err \<Rightarrow> (Some err, d) | Inr d' \<Rightarrow> unlinkAll d' fs)"

record clearResult =
  success :: bool
  deletedCount :: nat
  error :: "errno option"

definition clearCache :: "disk \<Rightarrow> clearResult \<times> disk" where
  "clearCache d =
     (case fs_readdir d of
        Inl err \<Rightarrow> (\<lparr>success = False, deletedCount = 0, error = Some err\<rparr>, d)
      | Inr fs \<Rightarrow>
          (let pngFiles = filter (\<lambda>f. endsWith f ''.png'') fs in
           case unlinkAll d pngFiles of
             (Some err, d') \<Rightarrow> (\<lparr>success = False, deletedCount = 0, error = Some err\<rparr>, d')
           | (None, d') \<Rightarrow>
               (\<lparr>success = True, deletedCount = length pngFiles, error = None\<rparr>, d')))"

section \<open>constants.js\<close>

definition FRAME_SIZE :: nat where
  "FRAME_SIZE = 64"

text \<open>\<open>Object.entries(ANIMATION_OFFSETS)\<close>, in the order the object literal gives them.\<close>

definition ANIMATION_OFFSETS :: "(string \<times> nat) list" where
  "ANIMATION_OFFSETS =
     [(''spellcast'', 0),
      (''thrust'', 4 * FRAME_SIZE),
      (''walk'', 8 * FRAME_SIZE),
      (''slash'', 12 * FRAME_SIZE),
      (''shoot'', 16 * FRAME_SIZE),
      (''hurt'', 20 * FRAME_SIZE),
      (''climb'', 21 * FRAME_SIZE),
      (''idle'', 22 * FRAME_SIZE),
      (''jump'', 26 * FRAME_SIZE),
      (''sit'', 30 * FRAME_SIZE),
      (''emote'', 34 * FRAME_SIZE),
      (''run'', 38 * FRAME_SIZE),
      (''combat_idle'', 42 * FRAME_SIZE),
      (''backslash'', 46 * FRAME_SIZE),
      (''halfslash'', 50 * FRAME_SIZE)]"

definition SHEET_WIDTH :: nat where
  "SHEET_WIDTH = 832"

definition SHEET_HEIGHT :: nat where
  "SHEET_HEIGHT = 3456"

section \<open>The canvas\<close>

text \<open>
  A pixel is \<open>(red, green, blue, alpha)\<close>, each from 0 to 255. An image and a canvas are a
  width, a height and the pixels inside.
\<close>

type_synonym rgba = "nat \<times> nat \<times> nat \<times> nat"

definition alpha :: "rgba \<Rightarrow> nat" where
  "alpha p = snd (snd (snd p))"

definition transparent :: rgba where
  "transparent = (0, 0, 0, 0)"

record image =
  iwidth :: nat
  iheight :: nat
  ipixel :: "nat \<Rightarrow> nat \<Rightarrow> rgba"

record canvas =
  cwidth :: nat
  cheight :: nat
  cpixel :: "nat \<Rightarrow> nat \<Rightarrow> rgba"

definition createCanvas :: "nat \<Rightarrow> nat \<Rightarrow> canvas" where
  "createCanvas w h = \<lparr>cwidth = w, cheight = h, cpixel = (\<lambda>x y. transparent)\<rparr>"

definition clearRect :: "canvas \<Rightarrow> nat \<Rightarrow> nat \<Rightarrow> nat \<Rightarrow> nat \<Rightarrow> canvas" where
  "clearRect c x0 y0 w h =
     c\<lparr>cpixel := (\<lambda>x y. if x0 \<le> x \<and> x < x0 + w \<and> y0 \<le> y \<and> y < y0 + h
                          then transparent else cpixel c x y)\<rparr>"

text \<open>
  Source-over compositing of one pixel: an opaque source replaces what is there, a fully
  transparent one leaves it, and \<open>blend\<close> (a parameter) mixes the two otherwise.
\<close>

definition sourceOver :: "(rgba \<Rightarrow> rgba \<Rightarrow> rgba) \<Rightarrow> rgba \<Rightarrow> rgba \<Rightarrow> rgba" where
  "sourceOver blend src dst =
     (if alpha src = 255 then src else if alpha src = 0 then dst else blend src dst)"

text \<open>\<open>ctx.drawImage(img, dx, dy)\<close>, clipped to the canvas.\<close>

definition drawImage ::
  "(rgba \<Rightarrow> rgba \<Rightarrow> rgba) \<Rightarrow> canvas \<Rightarrow> image \<Rightarrow> nat \<Rightarrow> nat \<Rightarrow> canvas" where
  "drawImage blend c img dx dy =
     c\<lparr>cpixel := (\<lambda>x y.
          if x < cwidth c \<and> y < cheight c \<and> dx \<le> x \<and> x - dx < iwidth img
               \<and> dy \<le> y \<and> y - dy < iheight img
          then sourceOver blend (ipixel img (x - dx) (y - dy)) (cpixel c x y)
          else cpixel c x y)\<rparr>"

section \<open>renderer.js\<close>

datatype exn = Error string

text \<open>
  \<open>pathParts = layer.fileName.split('/')\<close>, \<open>filename = pathParts.pop()\<close>,
  \<open>basePath = pathParts.join('/')\<close>: what follows the last slash, and what precedes it.
\<close>

definition filenameOf :: "string \<Rightarrow> string" where
  "filenameOf s = rev (takeWhile (\<lambda>c. c \<noteq> CHR ''/'') (rev s))"

definition basePathOf :: "string \<Rightarrow> string" where
  "basePathOf s = rev (drop 1 (dropWhile (\<lambda>c. c \<noteq> CHR ''/'') (rev s)))"

text \<open>\<open>[...layers].sort((a, b) => a.zPos - b.zPos)\<close>; a difference with \<open>undefined\<close> is \<open>NaN\<close>.\<close>

definition compareZPos :: "layer \<Rightarrow> layer \<Rightarrow> int" where
  "compareZPos a b =
     (case zPos a of None \<Rightarrow> 0 | Some x \<Rightarrow> (case zPos b of None \<Rightarrow> 0 | Some y \<Rightarrow> x - y))"

definition sortByZPos :: "layer list \<Rightarrow> layer list" where
  "sortByZPos ls = jsSort compareZPos ls"

text \<open>
  The body of the inner loop. The parameter \<open>sprites\<close> is \<open>loadImage\<close> on
  \<open>spritesheets/<basePath>/<animName>/<filename>\<close>: the image, or \<open>None\<close> when the
  promise is rejected, which the \<open>catch\<close> skips.
\<close>

definition drawLayer ::
  "(rgba \<Rightarrow> rgba \<Rightarrow> rgba) \<Rightarrow> (string \<Rightarrow> string \<Rightarrow> string \<Rightarrow> image option) \<Rightarrow>
   string \<Rightarrow> nat \<Rightarrow> canvas \<Rightarrow> layer \<Rightarrow> canvas" where
  "drawLayer blend sprites animName yPos c l =
     (case sprites (basePathOf (fileName l)) animName (filenameOf (fileName l)) of
        None \<Rightarrow> c
      | Some img \<Rightarrow> drawImage blend c img 0 yPos)"

definition drawRow ::
  "(rgba \<Rightarrow> rgba \<Rightarrow> rgba) \<Rightarrow> (string \<Rightarrow> string \<Rightarrow> string \<Rightarrow> image option) \<Rightarrow>
   layer list \<Rightarrow> canvas \<Rightarrow> string \<times> nat \<Rightarrow> canvas" where
  "drawRow blend sprites sortedLayers c row =
     foldl (drawLayer blend sprites (fst row) (snd row)) c sortedLayers"

definition generateSpritesheet ::
  "(rgba \<Rightarrow> rgba \<Rightarrow> rgba) \<Rightarrow> (string \<Rightarrow> string \<Rightarrow> string \<Rightarrow> image option) \<Rightarrow>
   layerDefinition \<Rightarrow> exn + canvas" where
  "generateSpritesheet blend sprites d =
     (case layers d of
        None \<Rightarrow> Inl (Error ''Invalid layer definition: missing bodyTypeName or layers array'')
      | Some ls \<Rightarrow>
          if bodyTypeName d = []
          then Inl (Error ''Invalid layer definition: missing bodyTypeName or layers array'')
          else Inr (foldl (drawRow blend sprites (sortByZPos ls))
                      (clearRect (createCanvas SHEET_WIDTH SHEET_HEIGHT) 0 0 SHEET_WIDTH SHEET_HEIGHT)
                      ANIMATION_OFFSETS))"

text \<open>
  A layer leaves the pixel \<open>(x, y)\<close> of an animation row as it is when it has no sprite
  for the animation, or its sprite does not reach the pixel, or is fully transparent there.
\<close>

definition clearAt ::
  "(string \<Rightarrow> string \<Rightarrow> string \<Rightarrow> image option) \<Rightarrow> string \<Rightarrow> layer \<Rightarrow> nat \<Rightarrow> nat \<Rightarrow> bool" where
  "clearAt sprites animName l x y =
     (case sprites (basePathOf (fileName l)) animName (filenameOf (fileName l)) of
        None \<Rightarrow> True
      | Some img \<Rightarrow> iwidth img \<le> x \<or> iheight img \<le> y \<or> alpha (ipixel img x y) = 0)"

section \<open>server.js: POST /api/generate\<close>

text \<open>
  The memory cache \<open>new NodeCache({ stdTTL: 3600 })\<close>: a value and the time (in
  milliseconds) at which it expires, by key. \<open>get\<close> answers \<open>undefined\<close> for a key that is
  absent or expired.
\<close>

type_synonym nodeCache = "string \<Rightarrow> (string \<times> nat) option"

definition stdTTL :: nat where
  "stdTTL = 3600"

definition cacheGet :: "nodeCache \<Rightarrow> nat \<Rightarrow> string \<Rightarrow> string option" where
  "cacheGet cache now key =
     (case cache key of
        None \<Rightarrow> None
      | Some (v, t) \<Rightarrow> if t < now then None else Some v)"

definition cacheSet :: "nodeCache \<Rightarrow> nat \<Rightarrow> string \<Rightarrow> string \<Rightarrow> nodeCache" where
  "cacheSet cache now key v = cache(key \<mapsto> (v, now + stdTTL * 1000))"

text \<open>
  The header \<open>X-Cache\<close>; \<open>MISS\<close> is the answer that was generated. A response is a JSON
  error (status, \<open>error\<close>, \<open>message\<close>) or the PNG with \<open>X-Cache\<close>, \<open>X-Cache-Key\<close> and
  the body sent.
\<close>

datatype xcache = DISK_HIT | MEMORY_HIT | MISS

datatype response =
    Json nat string string
  | Png xcache "string option" "string option"

text \<open>
  The handler. \<open>toBuffer\<close> is \<open>canvas.toBuffer('image/png')\<close>, \<open>now\<close> is \<open>Date.now()\<close>.
\<close>

definition apiGenerate ::
  "(string \<Rightarrow> string) \<Rightarrow> (rgba \<Rightarrow> rgba \<Rightarrow> rgba) \<Rightarrow> (string \<Rightarrow> string \<Rightarrow> string \<Rightarrow> image option) \<Rightarrow>
   (canvas \<Rightarrow> string) \<Rightarrow> nat \<Rightarrow> disk \<Rightarrow> nodeCache \<Rightarrow> layerDefinition \<Rightarrow> response \<times> nodeCache" where
  "apiGenerate digest blend sprites toBuffer now d cache req =
     (case layers req of
        None \<Rightarrow>
          (Json 400 ''Invalid request''
             ''Request must include bodyTypeName (string) and layers (array)'', cache)
      | Some ls \<Rightarrow>
          if bodyTypeName req = []
          then (Json 400 ''Invalid request''
                  ''Request must include bodyTypeName (string) and layers (array)'', cache)
          else if length ls = 0
          then (Json 400 ''Invalid request'' ''layers array cannot be empty'', cache)
          else if list_ex (\<lambda>l. fileName l = [] \<or> zPos l = None) ls
          then (Json 400 ''Invalid layer''
                  ''Each layer must have fileName (string) and zPos (number)'', cache)
          else
            (let diskCached = getCachedSpritesheet digest d (bodyTypeName req) (Some ls) in
             if hit diskCached
             then (Png DISK_HIT (hash diskCached) (buffer diskCached), cache)
             else
               (let cacheKey = memoryKey (bodyTypeName req) ls in
                case cacheGet cache now cacheKey of
                  Some memoryCached \<Rightarrow> (Png MEMORY_HIT None (Some memoryCached), cache)
                | None \<Rightarrow>
                    (case generateSpritesheet blend sprites req of
                       Inl (Error msg) \<Rightarrow> (Json 500 ''Generation failed'' msg, cache)
                     | Inr cv \<Rightarrow>
                         (Png MISS None (Some (toBuffer cv)),
                          cacheSet cache now cacheKey (toBuffer cv))))))"

section \<open>admin.js: POST /api/admin/cache/generate\<close>

datatype itemResult =
    AlreadyCached string "string option"
  | Generated string "string option" nat
  | Failed string string

record pregen =
  store :: disk
  results :: "itemResult list"
  generated :: nat
  alreadyCached :: nat
  failed :: nat

text \<open>
  The body of the loop over \<open>definitions\<close> for an item that is an object: the inner
  \<open>try\<close> with its \<open>catch\<close>.
\<close>

definition preGenerateItem ::
  "(string \<Rightarrow> string) \<Rightarrow> (rgba \<Rightarrow> rgba \<Rightarrow> rgba) \<Rightarrow> (string \<Rightarrow> string \<Rightarrow> string \<Rightarrow> image option) \<Rightarrow>
   (canvas \<Rightarrow> string) \<Rightarrow> pregen \<Rightarrow> layerDefinition \<Rightarrow> pregen" where
  "preGenerateItem digest blend sprites toBuffer st def =
     (let cached = getCachedSpritesheet digest (store st) (bodyTypeName def) (layers def) in
      if hit cached
      then st\<lparr>alreadyCached := alreadyCached st + 1,
              results := results st @ [AlreadyCached (bodyTypeName def) (hash cached)]\<rparr>
      else
        (case generateSpritesheet blend sprites def of
           Inl (Error msg) \<Rightarrow>
             st\<lparr>failed := failed st + 1,
                results := results st @ [Failed (bodyTypeName def) msg]\<rparr>
         | Inr cv \<Rightarrow>
             (case saveCachedSpritesheet digest (store st) (bodyTypeName def) (layers def)
                     (toBuffer cv) of
                (h, d') \<Rightarrow>
                  st\<lparr>store := d', generated := generated st + 1,
                     results := results st
                        @ [Generated (bodyTypeName def) h (length (toBuffer cv))]\<rparr>)))"

text \<open>
  The loop. An item of the array is an object (\<open>Some\<close>) or \<open>null\<close> (\<open>None\<close>). The
  destructuring \<open>const { bodyTypeName, layers } = def\<close> stands before the inner \<open>try\<close>: on
  \<open>null\<close> it throws, the loop ends there (\<open>Inl\<close>, with the state reached) and the items
  after it are not looked at.
\<close>

fun preGenerateLoop ::
  "(string \<Rightarrow> string) \<Rightarrow> (rgba \<Rightarrow> rgba \<Rightarrow> rgba) \<Rightarrow> (string \<Rightarrow> string \<Rightarrow> string \<Rightarrow> image option) \<Rightarrow>
   (canvas \<Rightarrow> string) \<Rightarrow> pregen \<Rightarrow> layerDefinition option list \<Rightarrow> pregen + pregen" where
  "preGenerateLoop digest blend sprites toBuffer st [] = Inr st"
| "preGenerateLoop digest blend sprites toBuffer st (None # defs) = Inl st"
| "preGenerateLoop digest blend sprites toBuffer st (Some def # defs) =
     preGenerateLoop digest blend sprites toBuffer
       (preGenerateItem digest blend sprites toBuffer st def) defs"

text \<open>
  The response: the report \<open>summary.total\<close>, \<open>generated\<close>, \<open>alreadyCached\<close>, \<open>failed\<close> and
  \<open>results\<close>, or the status 500 of the outer \<open>catch\<close> with its \<open>error\<close> field.
\<close>

datatype adminResponse =
    Report nat nat nat nat "itemResult list"
  | ServerError string

text \<open>
  The handler on an array of definitions (a body that is not an array is answered with 400
  before the loop): the response and the cache directory it leaves.
\<close>

definition preGenerate ::
  "(string \<Rightarrow> string) \<Rightarrow> (rgba \<Rightarrow> rgba \<Rightarrow> rgba) \<Rightarrow> (string \<Rightarrow> string \<Rightarrow> string \<Rightarrow> image option) \<Rightarrow>
   (canvas \<Rightarrow> string) \<Rightarrow> disk \<Rightarrow> layerDefinition option list \<Rightarrow> adminResponse \<times> disk" where
  "preGenerate digest blend sprites toBuffer d defs =
     (case preGenerateLoop digest blend sprites toBuffer
             \<lparr>store = d, results = [], generated = 0, alreadyCached = 0, failed = 0\<rparr> defs of
        Inr st \<Rightarrow>
          (Report (length defs) (generated st) (alreadyCached st) (failed st) (results st),
           store st)
      | Inl st \<Rightarrow> (ServerError ''Failed to pre-generate cache'', store st))"

section \<open>Sorting\<close>

text \<open>On a comparator that follows a key, \<open>jsSort\<close> is the stable sort by that key.\<close>

lemma insertBy_insort_key:
  assumes "\<And>y. y \<in> set ys \<Longrightarrow> (cmp x y \<le> 0) = (f x \<le> f y)"
  shows "insertBy cmp x ys = insort_key f x ys"
  using assms by (induction ys) auto

lemma jsSort_sort_key:
  assumes "\<And>x y. x \<in> set xs \<Longrightarrow> y \<in> set xs \<Longrightarrow> (cmp x y \<le> 0) = (f x \<le> f y)"
  shows "jsSort cmp xs = sort_key f xs"
  using assms
proof (induction xs)
  case Nil
  show ?case by (simp add: jsSort_def)
next
  case (Cons a xs)
  have ih: "jsSort cmp xs = sort_key f xs"
    using Cons by simp
  have "insertBy cmp a (sort_key f xs) = insort_key f a (sort_key f xs)"
    by (rule insertBy_insort_key) (use Cons.prems in simp)
  then show ?case
    using ih by (simp add: jsSort_def)
qed

section \<open>The cache key and the order of the layers\<close>

lemmas sort_eval = sortByFileName_def jsSort_def localeCompare_def

lemmas json_eval =
  stringify_def elementsJSON.simps layerJSON_def quoteJSON_def escapeChar_def showInt_def
  showNat.simps digitChar_def hexDigit_def

text \<open>
  C1. The claim: for two layer lists that are permutations of each other,
  \<open>generateCacheKey\<close> returns the same fingerprint. The sort orders by \<open>fileName\<close> alone
  and is stable, so two layers that share a \<open>fileName\<close> and differ in \<open>zPos\<close> stay in the
  order of the input. The two orders of such a pair are permutations of each other, and
  their fingerprints are the digests of two different strings.
\<close>

theorem generateCacheKey_tied_fileNames:
  \<open>mset [\<lparr>fileName = ''body/light.png'', zPos = Some 10, variant = Some ''light''\<rparr>,
         \<lparr>fileName = ''body/light.png'', zPos = Some 20, variant = Some ''light''\<rparr>]
   = mset [\<lparr>fileName = ''body/light.png'', zPos = Some 20, variant = Some ''light''\<rparr>,
         \<lparr>fileName = ''body/light.png'', zPos = Some 10, variant = Some ''light''\<rparr>]
   \<and> (\<forall>digest.
        generateCacheKey digest ''male''
          [\<lparr>fileName = ''body/light.png'', zPos = Some 10, variant = Some ''light''\<rparr>,
           \<lparr>fileName = ''body/light.png'', zPos = Some 20, variant = Some ''light''\<rparr>]
        = digest ''{"bodyTypeName":"male","layers":[{"fileName":"body/light.png","zPos":10,"variant":"light"},{"fileName":"body/light.png","zPos":20,"variant":"light"}]}''
      \<and> generateCacheKey digest ''male''
          [\<lparr>fileName = ''body/light.png'', zPos = Some 20, variant = Some ''light''\<rparr>,
           \<lparr>fileName = ''body/light.png'', zPos = Some 10, variant = Some ''light''\<rparr>]
        = digest ''{"bodyTypeName":"male","layers":[{"fileName":"body/light.png","zPos":20,"variant":"light"},{"fileName":"body/light.png","zPos":10,"variant":"light"}]}'')
   \<and> cacheData ''male''
        [\<lparr>fileName = ''body/light.png'', zPos = Some 10, variant = Some ''light''\<rparr>,
         \<lparr>fileName = ''body/light.png'', zPos = Some 20, variant = Some ''light''\<rparr>]
     \<noteq> cacheData ''male''
        [\<lparr>fileName = ''body/light.png'', zPos = Some 20, variant = Some ''light''\<rparr>,
         \<lparr>fileName = ''body/light.png'', zPos = Some 10, variant = Some ''light''\<rparr>]\<close>
proof -
  let ?a = "\<lparr>fileName = ''body/light.png'', zPos = Some 10, variant = Some ''light''\<rparr>"
  let ?b = "\<lparr>fileName = ''body/light.png'', zPos = Some 20, variant = Some ''light''\<rparr>"
  have s1: "sortByFileName [?a, ?b] = [?a, ?b]" by (simp add: sort_eval)
  have s2: "sortByFileName [?b, ?a] = [?b, ?a]" by (simp add: sort_eval)
  have j1: \<open>cacheData ''male'' [?a, ?b]
      = ''{"bodyTypeName":"male","layers":[{"fileName":"body/light.png","zPos":10,"variant":"light"},{"fileName":"body/light.png","zPos":20,"variant":"light"}]}''\<close>
    unfolding cacheData_def s1 by (simp add: json_eval)
  have j2: \<open>cacheData ''male'' [?b, ?a]
      = ''{"bodyTypeName":"male","layers":[{"fileName":"body/light.png","zPos":20,"variant":"light"},{"fileName":"body/light.png","zPos":10,"variant":"light"}]}''\<close>
    unfolding cacheData_def s2 by (simp add: json_eval)
  have ne: "cacheData ''male'' [?a, ?b] \<noteq> cacheData ''male'' [?b, ?a]"
    unfolding j1 j2 by simp
  have m: "mset [?a, ?b] = mset [?b, ?a]" by (simp add: add.commute)
  show ?thesis
    using m ne by (simp add: generateCacheKey_def j1 j2)
qed

text \<open>
  C5. The claim: reordering the layers of a definition leaves the fingerprint as it is and
  changes the memory key. The memory key is \<open>JSON.stringify\<close> of the request in the order
  it came; the fingerprint is the digest of the serialisation after the sort by
  \<open>fileName\<close>, which leaves layers on the same file in the order of the input. For two
  hair layers on one file that differ in \<open>variant\<close>, the two orders have different memory
  keys, as the claim says, and their fingerprints are the digests of two different strings:
  the same sort as in C1.
\<close>

theorem memoryKey_and_fingerprint_reordered:
  \<open>mset [\<lparr>fileName = ''hair/long.png'', zPos = Some 120, variant = Some ''brown''\<rparr>,
         \<lparr>fileName = ''hair/long.png'', zPos = Some 120, variant = Some ''blonde''\<rparr>]
   = mset [\<lparr>fileName = ''hair/long.png'', zPos = Some 120, variant = Some ''blonde''\<rparr>,
         \<lparr>fileName = ''hair/long.png'', zPos = Some 120, variant = Some ''brown''\<rparr>]
   \<and> memoryKey ''male''
        [\<lparr>fileName = ''hair/long.png'', zPos = Some 120, variant = Some ''brown''\<rparr>,
         \<lparr>fileName = ''hair/long.png'', zPos = Some 120, variant = Some ''blonde''\<rparr>]
     = ''{"bodyTypeName":"male","layers":[{"fileName":"hair/long.png","zPos":120,"variant":"brown"},{"fileName":"hair/long.png","zPos":120,"variant":"blonde"}]}''
   \<and> memoryKey ''male''
        [\<lparr>fileName = ''hair/long.png'', zPos = Some 120, variant = Some ''blonde''\<rparr>,
         \<lparr>fileName = ''hair/long.png'', zPos = Some 120, variant = Some ''brown''\<rparr>]
     = ''{"bodyTypeName":"male","layers":[{"fileName":"hair/long.png","zPos":120,"variant":"blonde"},{"fileName":"hair/long.png","zPos":120,"variant":"brown"}]}''
   \<and> (\<forall>digest.
        generateCacheKey digest ''male''
          [\<lparr>fileName = ''hair/long.png'', zPos = Some 120, variant = Some ''brown''\<rparr>,
           \<lparr>fileName = ''hair/long.png'', zPos = Some 120, variant = Some ''blonde''\<rparr>]
        = digest ''{"bodyTypeName":"male","layers":[{"fileName":"hair/long.png","zPos":120,"variant":"brown"},{"fileName":"hair/long.png","zPos":120,"variant":"blonde"}]}''
      \<and> generateCacheKey digest ''male''
          [\<lparr>fileName = ''hair/long.png'', zPos = Some 120, variant = Some ''blonde''\<rparr>,
           \<lparr>fileName = ''hair/long.png'', zPos = Some 120, variant = Some ''brown''\<rparr>]
        = digest ''{"bodyTypeName":"male","layers":[{"fileName":"hair/long.png","zPos":120,"variant":"blonde"},{"fileName":"hair/long.png","zPos":120,"variant":"brown"}]}'')
   \<and> cacheData ''male''
        [\<lparr>fileName = ''hair/long.png'', zPos = Some 120, variant = Some ''brown''\<rparr>,
         \<lparr>fileName = ''hair/long.png'', zPos = Some 120, variant = Some ''blonde''\<rparr>]
     \<noteq> cacheData ''male''
        [\<lparr>fileName = ''hair/long.png'', zPos = Some 120, variant = Some ''blonde''\<rparr>,
         \<lparr>fileName = ''hair/long.png'', zPos = Some 120, variant = Some ''brown''\<rparr>]\<close>
proof -
  let ?a = "\<lparr>fileName = ''hair/long.png'', zPos = Some 120, variant = Some ''brown''\<rparr>"
  let ?b = "\<lparr>fileName = ''hair/long.png'', zPos = Some 120, variant = Some ''blonde''\<rparr>"
  have s1: "sortByFileName [?a, ?b] = [?a, ?b]" by (simp add: sort_eval)
  have s2: "sortByFileName [?b, ?a] = [?b, ?a]" by (simp add: sort_eval)
  have k1: \<open>stringify ''male'' [?a, ?b]
      = ''{"bodyTypeName":"male","layers":[{"fileName":"hair/long.png","zPos":120,"variant":"brown"},{"fileName":"hair/long.png","zPos":120,"variant":"blonde"}]}''\<close>
    by (simp add: json_eval)
  have k2: \<open>stringify ''male'' [?b, ?a]
      = ''{"bodyTypeName":"male","layers":[{"fileName":"hair/long.png","zPos":120,"variant":"blonde"},{"fileName":"hair/long.png","zPos":120,"variant":"brown"}]}''\<close>
    by (simp add: json_eval)
  have ne: "cacheData ''male'' [?a, ?b] \<noteq> cacheData ''male'' [?b, ?a]"
    unfolding cacheData_def s1 s2 k1 k2 by simp
  have m: "mset [?a, ?b] = mset [?b, ?a]" by (simp add: add.commute)
  show ?thesis
    using m ne by (simp add: generateCacheKey_def cacheData_def memoryKey_def s1 s2 k1 k2)
qed

section \<open>The disk cache\<close>

lemma fs_unlink_frame:
  assumes "fs_unlink d f = Inr d'" and "P f"
  shows "filter (\<lambda>e. \<not> P (fst e)) (files d') = filter (\<lambda>e. \<not> P (fst e)) (files d)"
    and "faults d' = faults d"
proof -
  from assms(1) have d': "d' = d\<lparr>files := filter (\<lambda>e. fst e \<noteq> f) (files d)\<rparr>"
    by (auto simp: fs_unlink_def split: if_splits)
  show "faults d' = faults d" by (simp add: d')
  have "filter (\<lambda>e. \<not> P (fst e)) (filter (\<lambda>e. fst e \<noteq> f) (files d))
        = filter (\<lambda>e. \<not> P (fst e)) (files d)"
    using assms(2) by (auto intro: filter_cong)
  then show "filter (\<lambda>e. \<not> P (fst e)) (files d') = filter (\<lambda>e. \<not> P (fst e)) (files d)"
    by (simp add: d')
qed

lemma unlinkAll_frame:
  assumes "list_all P fs"
  shows "filter (\<lambda>e. \<not> P (fst e)) (files (snd (unlinkAll d fs))) = filter (\<lambda>e. \<not> P (fst e)) (files d)
       \<and> faults (snd (unlinkAll d fs)) = faults d"
  using assms
proof (induction fs arbitrary: d)
  case Nil
  show ?case by simp
next
  case (Cons f fs)
  show ?case
  proof (cases "fs_unlink d f")
    case (Inl err)
    then show ?thesis by simp
  next
    case (Inr d')
    from Cons.prems have "P f" and "list_all P fs" by simp_all
    with Cons.IH[of d'] fs_unlink_frame[OF Inr, of P] Inr show ?thesis by simp
  qed
qed

lemma unlinkAll_all:
  assumes "distinct fs" and "set fs \<subseteq> set (map fst (files d))"
    and "list_all (\<lambda>f. Unlink f \<notin> set (faults d)) fs"
  shows "unlinkAll d fs = (None, d\<lparr>files := filter (\<lambda>e. fst e \<notin> set fs) (files d)\<rparr>)"
  using assms
proof (induction fs arbitrary: d)
  case Nil
  show ?case by simp
next
  case (Cons f fs)
  let ?d' = "d\<lparr>files := filter (\<lambda>e. fst e \<noteq> f) (files d)\<rparr>"
  from Cons.prems have un: "fs_unlink d f = Inr ?d'"
    by (simp add: fs_unlink_def)
  have sub: "set fs \<subseteq> set (map fst (files ?d'))"
  proof
    fix x assume x: "x \<in> set fs"
    with Cons.prems(1) have "x \<noteq> f" by auto
    moreover from x Cons.prems(2) obtain e where "e \<in> set (files d)" "fst e = x" by auto
    ultimately show "x \<in> set (map fst (files ?d'))" by force
  qed
  have "unlinkAll ?d' fs = (None, ?d'\<lparr>files := filter (\<lambda>e. fst e \<notin> set fs) (files ?d')\<rparr>)"
    using Cons.prems sub by (intro Cons.IH) simp_all
  moreover have "filter (\<lambda>e. fst e \<notin> set fs) (filter (\<lambda>e. fst e \<noteq> f) (files d))
               = filter (\<lambda>e. fst e \<notin> set (f # fs)) (files d)"
    by (auto intro: filter_cong)
  ultimately show ?case using un by simp
qed

text \<open>
  C10. \<open>clearCache\<close> never touches an entry whose name does not end in \<open>.png\<close>. When the
  directory can be read and every \<open>.png\<close> entry can be unlinked (the entries of a directory
  have distinct names), it removes exactly the \<open>.png\<close> entries and reports their number as
  \<open>deletedCount\<close>.
\<close>

theorem clearCache_removes_png:
  "filter (\<lambda>e. \<not> endsWith (fst e) ''.png'') (files (snd (clearCache d)))
     = filter (\<lambda>e. \<not> endsWith (fst e) ''.png'') (files d)
   \<and> (distinct (map fst (files d)) \<and> Readdir \<notin> set (faults d)
        \<and> list_all (\<lambda>f. Unlink f \<notin> set (faults d))
             (filter (\<lambda>f. endsWith f ''.png'') (map fst (files d)))
      \<longrightarrow> clearCache d =
            (\<lparr>success = True,
              deletedCount = length (filter (\<lambda>e. endsWith (fst e) ''.png'') (files d)),
              error = None\<rparr>,
             d\<lparr>files := filter (\<lambda>e. \<not> endsWith (fst e) ''.png'') (files d)\<rparr>))"
proof (intro conjI impI)
  let ?png = "\<lambda>f. endsWith f ''.png''"
  let ?fs = "filter ?png (map fst (files d))"
  show "filter (\<lambda>e. \<not> ?png (fst e)) (files (snd (clearCache d))) = filter (\<lambda>e. \<not> ?png (fst e)) (files d)"
  proof (cases "fs_readdir d")
    case (Inl err)
    then show ?thesis by (simp add: clearCache_def)
  next
    case (Inr names)
    then have names: "names = map fst (files d)"
      by (auto simp: fs_readdir_def split: if_splits)
    have "list_all ?png ?fs" by (simp add: list_all_iff)
    from unlinkAll_frame[OF this, of d]
    show ?thesis
      using Inr names by (cases "unlinkAll d ?fs") (auto simp: clearCache_def split: option.splits)
  qed
next
  let ?png = "\<lambda>f. endsWith f ''.png''"
  let ?fs = "filter ?png (map fst (files d))"
  assume h: "distinct (map fst (files d)) \<and> Readdir \<notin> set (faults d)
        \<and> list_all (\<lambda>f. Unlink f \<notin> set (faults d)) ?fs"
  then have rd: "fs_readdir d = Inr (map fst (files d))" by (simp add: fs_readdir_def)
  have "unlinkAll d ?fs = (None, d\<lparr>files := filter (\<lambda>e. fst e \<notin> set ?fs) (files d)\<rparr>)"
    using h by (intro unlinkAll_all) auto
  moreover have "filter (\<lambda>e. fst e \<notin> set ?fs) (files d) = filter (\<lambda>e. \<not> ?png (fst e)) (files d)"
    by (auto intro: filter_cong)
  moreover have "length ?fs = length (filter (\<lambda>e. ?png (fst e)) (files d))"
    by (simp add: filter_map comp_def)
  ultimately show "clearCache d =
            (\<lparr>success = True,
              deletedCount = length (filter (\<lambda>e. endsWith (fst e) ''.png'') (files d)),
              error = None\<rparr>,
             d\<lparr>files := filter (\<lambda>e. \<not> endsWith (fst e) ''.png'') (files d)\<rparr>)"
    using rd by (simp add: clearCache_def)
qed

text \<open>A directory with two cached sheets and a file of another kind.\<close>

theorem clearCache_removes_png_witness:
  "distinct (map fst [(''ab12.png'', ''one''), (''notes.txt'', ''keep''), (''cd34.png'', ''two'')])
   \<and> clearCache \<lparr>files = [(''ab12.png'', ''one''), (''notes.txt'', ''keep''), (''cd34.png'', ''two'')],
                  faults = []\<rparr>
     = (\<lparr>success = True, deletedCount = 2, error = None\<rparr>,
        \<lparr>files = [(''notes.txt'', ''keep'')], faults = []\<rparr>)"
  using clearCache_removes_png[of "\<lparr>files = [(''ab12.png'', ''one''), (''notes.txt'', ''keep''), (''cd34.png'', ''two'')], faults = []\<rparr>"]
  by (simp add: endsWith_def)

section \<open>The renderer\<close>

lemma mset_insertBy: "mset (insertBy cmp x ys) = add_mset x (mset ys)"
  by (induction ys) auto

lemma mset_jsSort: "mset (jsSort cmp xs) = mset xs"
  by (induction xs) (simp_all add: jsSort_def mset_insertBy)

lemma set_jsSort: "set (jsSort cmp xs) = set xs"
  using mset_jsSort[of cmp xs] by (metis set_mset_mset)

lemma drawImage_dims: "cwidth (drawImage blend c img dx dy) = cwidth c"
  "cheight (drawImage blend c img dx dy) = cheight c"
  by (simp_all add: drawImage_def)

lemma drawLayer_dims: "cwidth (drawLayer blend sprites a y c l) = cwidth c"
  "cheight (drawLayer blend sprites a y c l) = cheight c"
  by (simp_all add: drawLayer_def drawImage_dims split: option.splits)

lemma drawRow_dims: "cwidth (drawRow blend sprites ls c row) = cwidth c \<and> cheight (drawRow blend sprites ls c row) = cheight c"
  unfolding drawRow_def by (induction ls arbitrary: c) (simp_all add: drawLayer_dims)

lemma drawRows_dims:
  "cwidth (foldl (drawRow blend sprites ls) c rows) = cwidth c
   \<and> cheight (foldl (drawRow blend sprites ls) c rows) = cheight c"
  by (induction rows arbitrary: c) (simp_all add: drawRow_dims)

lemma blank_canvas:
  "clearRect (createCanvas w h) 0 0 w h = \<lparr>cwidth = w, cheight = h, cpixel = (\<lambda>x y. transparent)\<rparr>"
  by (simp add: clearRect_def createCanvas_def fun_eq_iff)

text \<open>A row in which no layer has a sprite leaves the canvas as it is.\<close>

lemma drawRow_all_miss:
  assumes "list_all (\<lambda>l. sprites (basePathOf (fileName l)) (fst row) (filenameOf (fileName l)) = None) ls"
  shows "drawRow blend sprites ls c row = c"
  using assms unfolding drawRow_def
  by (induction ls arbitrary: c) (simp_all add: drawLayer_def)

lemma drawRows_all_miss:
  assumes "list_all (\<lambda>row. list_all (\<lambda>l. sprites (basePathOf (fileName l)) (fst row)
                        (filenameOf (fileName l)) = None) ls) rows"
  shows "foldl (drawRow blend sprites ls) c rows = c"
  using assms by (induction rows arbitrary: c) (simp_all add: drawRow_all_miss)

lemma generateSpritesheet_ok:
  assumes "bodyTypeName d \<noteq> []" and "layers d = Some ls"
  shows "generateSpritesheet blend sprites d =
     Inr (foldl (drawRow blend sprites (sortByZPos ls))
            \<lparr>cwidth = SHEET_WIDTH, cheight = SHEET_HEIGHT, cpixel = (\<lambda>x y. transparent)\<rparr>
            ANIMATION_OFFSETS)"
  using assms by (simp add: generateSpritesheet_def blank_canvas)

text \<open>
  C4. A definition that meets the preconditions of the specification (a body type, at least
  one layer, every layer with a file name and a numeric \<open>zPos\<close>) renders to a canvas of
  832 by 3456 pixels, whatever sprites are found; when no sprite of any layer is found for any
  animation, the canvas is the transparent one.
\<close>

theorem generateSpritesheet_dimensions:
  assumes "bodyTypeName d \<noteq> []" and "layers d = Some ls" and "ls \<noteq> []"
    and "list_all (\<lambda>l. fileName l \<noteq> [] \<and> zPos l \<noteq> None) ls"
  shows "\<exists>cv. generateSpritesheet blend sprites d = Inr cv
           \<and> cwidth cv = 832 \<and> cheight cv = 3456
           \<and> cwidth cv = SHEET_WIDTH \<and> cheight cv = SHEET_HEIGHT
           \<and> (list_all (\<lambda>l. list_all (\<lambda>row. sprites (basePathOf (fileName l)) (fst row)
                               (filenameOf (fileName l)) = None) ANIMATION_OFFSETS) ls
               \<longrightarrow> cv = \<lparr>cwidth = 832, cheight = 3456, cpixel = (\<lambda>x y. transparent)\<rparr>)"
proof -
  let ?blank = "\<lparr>cwidth = SHEET_WIDTH, cheight = SHEET_HEIGHT, cpixel = (\<lambda>x y. transparent)\<rparr>"
  let ?cv = "foldl (drawRow blend sprites (sortByZPos ls)) ?blank ANIMATION_OFFSETS"
  have ok: "generateSpritesheet blend sprites d = Inr ?cv"
    by (rule generateSpritesheet_ok) (rule assms)+
  have dims: "cwidth ?cv = SHEET_WIDTH \<and> cheight ?cv = SHEET_HEIGHT"
    using drawRows_dims[of blend sprites "sortByZPos ls" ?blank ANIMATION_OFFSETS] by simp
  have miss: "?cv = ?blank"
    if m: "list_all (\<lambda>l. list_all (\<lambda>row. sprites (basePathOf (fileName l)) (fst row)
                               (filenameOf (fileName l)) = None) ANIMATION_OFFSETS) ls"
  proof (rule drawRows_all_miss)
    have "set (sortByZPos ls) = set ls" by (simp add: sortByZPos_def set_jsSort)
    with m show "list_all (\<lambda>row. list_all (\<lambda>l. sprites (basePathOf (fileName l)) (fst row)
                        (filenameOf (fileName l)) = None) (sortByZPos ls)) ANIMATION_OFFSETS"
      by (simp add: list_all_iff)
  qed
  show ?thesis
    using ok dims miss by (auto simp: SHEET_WIDTH_def SHEET_HEIGHT_def)
qed

text \<open>One layer, no sprite found.\<close>

theorem generateSpritesheet_dimensions_witness:
  "\<forall>blend.
     generateSpritesheet blend (\<lambda>p a f. None)
       \<lparr>bodyTypeName = ''male'',
        layers = Some [\<lparr>fileName = ''body/light.png'', zPos = Some 10, variant = None\<rparr>]\<rparr>
     = Inr \<lparr>cwidth = 832, cheight = 3456, cpixel = (\<lambda>x y. transparent)\<rparr>"
proof
  fix blend :: "rgba \<Rightarrow> rgba \<Rightarrow> rgba"
  let ?ls = "[\<lparr>fileName = ''body/light.png'', zPos = Some 10, variant = None\<rparr>]"
  let ?d = "\<lparr>bodyTypeName = ''male'', layers = Some ?ls\<rparr>"
  have h1: "bodyTypeName ?d \<noteq> []" by simp
  have h2: "layers ?d = Some ?ls" by simp
  have h3: "?ls \<noteq> []" by simp
  have h4: "list_all (\<lambda>l. fileName l \<noteq> [] \<and> zPos l \<noteq> None) ?ls" by simp
  have h5: "list_all (\<lambda>l. list_all (\<lambda>row. (\<lambda>p a f. None :: image option) (basePathOf (fileName l)) (fst row)
                               (filenameOf (fileName l)) = None) ANIMATION_OFFSETS) ?ls"
    by (simp add: list_all_iff)
  from generateSpritesheet_dimensions[OF h1 h2 h3 h4, of blend "\<lambda>p a f. None"] h5
  show "generateSpritesheet blend (\<lambda>p a f. None) ?d
     = Inr \<lparr>cwidth = 832, cheight = 3456, cpixel = (\<lambda>x y. transparent)\<rparr>"
    by auto
qed

text \<open>
  C3. \<open>generateSpritesheet\<close> throws exactly when \<open>bodyTypeName\<close> is empty or \<open>layers\<close> is
  not an array, and then with the one message. The layers themselves are not looked at.
\<close>

theorem generateSpritesheet_fails_iff:
  "(generateSpritesheet blend sprites d = Inl e)
   = ((bodyTypeName d = [] \<or> layers d = None)
      \<and> e = Error ''Invalid layer definition: missing bodyTypeName or layers array'')"
  by (auto simp: generateSpritesheet_def split: option.splits)

text \<open>An empty body type is refused, with layers present.\<close>

theorem generateSpritesheet_fails_iff_witness:
  "\<forall>blend sprites.
     generateSpritesheet blend sprites \<lparr>bodyTypeName = [], layers = Some []\<rparr>
       = Inl (Error ''Invalid layer definition: missing bodyTypeName or layers array'')"
  using generateSpritesheet_fails_iff
    [of _ _ "\<lparr>bodyTypeName = [], layers = Some []\<rparr>"
       "Error ''Invalid layer definition: missing bodyTypeName or layers array''"]
  by simp

text \<open>
  C3 as stated fails: an empty list of layers renders to the transparent sheet, and so
  does a layer with an empty file name and no \<open>zPos\<close>.
\<close>

theorem generateSpritesheet_empty_layers_counterexample:
  "\<forall>blend sprites.
     generateSpritesheet blend sprites \<lparr>bodyTypeName = ''male'', layers = Some []\<rparr>
       = Inr \<lparr>cwidth = 832, cheight = 3456, cpixel = (\<lambda>x y. transparent)\<rparr>
   \<and> (\<exists>cv. generateSpritesheet blend sprites
         \<lparr>bodyTypeName = ''male'',
          layers = Some [\<lparr>fileName = [], zPos = None, variant = None\<rparr>]\<rparr> = Inr cv)"
proof (intro allI conjI)
  fix blend :: "rgba \<Rightarrow> rgba \<Rightarrow> rgba" and sprites :: "string \<Rightarrow> string \<Rightarrow> string \<Rightarrow> image option"
  have "foldl (drawRow blend sprites []) c rows = c" for c rows
    by (induction rows) (simp_all add: drawRow_def)
  then show "generateSpritesheet blend sprites \<lparr>bodyTypeName = ''male'', layers = Some []\<rparr>
       = Inr \<lparr>cwidth = 832, cheight = 3456, cpixel = (\<lambda>x y. transparent)\<rparr>"
    by (simp add: generateSpritesheet_def blank_canvas sortByZPos_def jsSort_def
          SHEET_WIDTH_def SHEET_HEIGHT_def)
  show "\<exists>cv. generateSpritesheet blend sprites
         \<lparr>bodyTypeName = ''male'',
          layers = Some [\<lparr>fileName = [], zPos = None, variant = None\<rparr>]\<rparr> = Inr cv"
    by (simp add: generateSpritesheet_def)
qed

lemma sortByZPos_sort_key:
  assumes "list_all (\<lambda>l. zPos l \<noteq> None) ls"
  shows "sortByZPos ls = sort_key (\<lambda>l. the (zPos l)) ls"
  unfolding sortByZPos_def
proof (rule jsSort_sort_key)
  fix a b assume "a \<in> set ls" "b \<in> set ls"
  with assms have "zPos a \<noteq> None" "zPos b \<noteq> None"
    by (simp_all add: list_all_iff)
  then obtain x y where "zPos a = Some x" "zPos b = Some y"
    by auto
  then show "(compareZPos a b \<le> 0) = (the (zPos a) \<le> the (zPos b))"
    by (simp add: compareZPos_def)
qed

text \<open>What one \<open>drawLayer\<close> does to one pixel of the canvas.\<close>

lemma drawLayer_clear:
  assumes "clearAt sprites a l x y"
  shows "cpixel (drawLayer blend sprites a yPos c l) x (yPos + y) = cpixel c x (yPos + y)"
  using assms
  by (auto simp: clearAt_def drawLayer_def drawImage_def sourceOver_def split: option.splits)

lemma drawLayer_above:
  assumes "y < yPos"
  shows "cpixel (drawLayer blend sprites a yPos c l) x y = cpixel c x y"
  using assms by (simp add: drawLayer_def drawImage_def split: option.splits)

lemma drawLayer_opaque:
  assumes "sprites (basePathOf (fileName l)) a (filenameOf (fileName l)) = Some img"
    and "x < iwidth img" and "y < iheight img" and "alpha (ipixel img x y) = 255"
    and "x < cwidth c" and "yPos + y < cheight c"
  shows "cpixel (drawLayer blend sprites a yPos c l) x (yPos + y) = ipixel img x y"
  using assms by (simp add: drawLayer_def drawImage_def sourceOver_def)

lemma foldl_drawLayer_dims:
  "cwidth (foldl (drawLayer blend sprites a yPos) c ls) = cwidth c
   \<and> cheight (foldl (drawLayer blend sprites a yPos) c ls) = cheight c"
  by (induction ls arbitrary: c) (simp_all add: drawLayer_dims)

text \<open>
  One row: after the layers, sorted by \<open>k\<close>, have been drawn, the pixel is that of \<open>B\<close>, when
  every layer that is not below \<open>B\<close> is \<open>B\<close> or clear there.
\<close>

lemma row_topmost:
  assumes "sorted (map k ls)" and "B \<in> set ls"
    and "list_all (\<lambda>C. C = B \<or> k C < k B \<or> clearAt sprites a C x y) ls"
    and "sprites (basePathOf (fileName B)) a (filenameOf (fileName B)) = Some img"
    and "x < iwidth img" and "y < iheight img" and "alpha (ipixel img x y) = 255"
    and "x < cwidth c" and "yPos + y < cheight c"
  shows "cpixel (foldl (drawLayer blend sprites a yPos) c ls) x (yPos + y) = ipixel img x y"
  using assms(1,2,3)
proof (induction ls rule: rev_induct)
  case Nil
  then show ?case by simp
next
  case (snoc C ls)
  let ?c = "foldl (drawLayer blend sprites a yPos) c ls"
  have dims: "x < cwidth ?c" "yPos + y < cheight ?c"
    using assms(8,9) foldl_drawLayer_dims[of blend sprites a yPos c ls] by simp_all
  show ?case
  proof (cases "C = B")
    case True
    have "cpixel (drawLayer blend sprites a yPos ?c B) x (yPos + y) = ipixel img x y"
      by (rule drawLayer_opaque) (fact assms(4) assms(5) assms(6) assms(7) dims)+
    with True show ?thesis by simp
  next
    case False
    with snoc.prems(2) have B: "B \<in> set ls" by simp
    from snoc.prems(1) have "sorted (map k ls)" and "k B \<le> k C"
      using B by (auto simp: sorted_append)
    with snoc.prems(3) False have "clearAt sprites a C x y" and "list_all (\<lambda>C. C = B \<or> k C < k B \<or> clearAt sprites a C x y) ls"
      by auto
    with snoc.IH[OF \<open>sorted (map k ls)\<close> B] show ?thesis
      by (simp add: drawLayer_clear)
  qed
qed

text \<open>A later row starts below the pixel and leaves it as it is.\<close>

lemma drawRow_above:
  assumes "y < snd row"
  shows "cpixel (drawRow blend sprites ls c row) x y = cpixel c x y"
  unfolding drawRow_def using assms
  by (induction ls arbitrary: c) (simp_all add: drawLayer_above)

lemma drawRows_above:
  assumes "list_all (\<lambda>row. y < snd row) rows"
  shows "cpixel (foldl (drawRow blend sprites ls) c rows) x y = cpixel c x y"
  using assms by (induction rows arbitrary: c) (simp_all add: drawRow_above)

lemma offsets_increasing: "sorted_wrt (\<lambda>r s. snd r < snd s) ANIMATION_OFFSETS"
  by (simp add: ANIMATION_OFFSETS_def FRAME_SIZE_def)

text \<open>
  C9. The layers are drawn in ascending \<open>zPos\<close>, layers of equal \<open>zPos\<close> in the order of the
  input. So a layer \<open>A\<close> with a smaller \<open>zPos\<close> than \<open>B\<close> is drawn before \<open>B\<close> in every row;
  and where both have an opaque pixel at \<open>(x, y)\<close> of their sprites for an animation, the
  pixel \<open>(x, yPos + y)\<close> of the sheet is \<open>B\<close>'s, when the pixel lies above the later rows and
  no other layer whose \<open>zPos\<close> is not below that of \<open>B\<close> paints it.
\<close>

theorem higher_zPos_on_top:
  assumes "bodyTypeName d \<noteq> []" and "layers d = Some ls"
    and "list_all (\<lambda>l. zPos l \<noteq> None) ls"
    and "A \<in> set ls" and "B \<in> set ls" and "the (zPos A) < the (zPos B)"
    and "(a, yPos) \<in> set ANIMATION_OFFSETS"
    and "list_all (\<lambda>row. snd row \<le> yPos \<or> yPos + y < snd row) ANIMATION_OFFSETS"
    and "x < SHEET_WIDTH" and "yPos + y < SHEET_HEIGHT"
    and "sprites (basePathOf (fileName A)) a (filenameOf (fileName A)) = Some imgA"
    and "x < iwidth imgA" and "y < iheight imgA" and "alpha (ipixel imgA x y) = 255"
    and "sprites (basePathOf (fileName B)) a (filenameOf (fileName B)) = Some imgB"
    and "x < iwidth imgB" and "y < iheight imgB" and "alpha (ipixel imgB x y) = 255"
    and "list_all (\<lambda>C. C = B \<or> the (zPos C) < the (zPos B) \<or> clearAt sprites a C x y) ls"
  shows "sorted (map (\<lambda>l. the (zPos l)) (sortByZPos ls))
       \<and> mset (sortByZPos ls) = mset ls
       \<and> (\<forall>z. filter (\<lambda>l. zPos l = Some z) (sortByZPos ls) = filter (\<lambda>l. zPos l = Some z) ls)
       \<and> (\<exists>pre post. sortByZPos ls = pre @ B # post \<and> A \<in> set pre)
       \<and> (\<exists>cv. generateSpritesheet blend sprites d = Inr cv
             \<and> cpixel cv x (yPos + y) = ipixel imgB x y)"
proof (intro conjI)
  let ?k = "\<lambda>l. the (zPos l)"
  let ?s = "sortByZPos ls"
  have sk: "?s = sort_key ?k ls" by (rule sortByZPos_sort_key) (rule assms(3))
  show sorted: "sorted (map ?k ?s)" by (simp add: sk)
  show "mset ?s = mset ls" by (simp add: sk)
  have set: "set ?s = set ls" by (simp add: sk)
  show "\<forall>z. filter (\<lambda>l. zPos l = Some z) ?s = filter (\<lambda>l. zPos l = Some z) ls"
  proof
    fix z
    have eq: "(zPos l = Some z) = (?k l = z)" if "l \<in> set ls" for l
      using that assms(3) by (auto simp: list_all_iff)
    have "filter (\<lambda>l. zPos l = Some z) ?s = filter (\<lambda>l. ?k l = z) ?s"
      using eq set by (intro filter_cong) auto
    also have "\<dots> = filter (\<lambda>l. ?k l = z) ls"
      unfolding sk by (rule sort_key_stable)
    also have "\<dots> = filter (\<lambda>l. zPos l = Some z) ls"
      using eq by (intro filter_cong) auto
    finally show "filter (\<lambda>l. zPos l = Some z) ?s = filter (\<lambda>l. zPos l = Some z) ls" .
  qed
  show "\<exists>pre post. ?s = pre @ B # post \<and> A \<in> set pre"
  proof -
    from assms(5) set obtain pre post where pp: "?s = pre @ B # post"
      by (metis split_list)
    from assms(6) have "A \<noteq> B" by auto
    with assms(4) set pp have "A \<in> set pre \<or> A \<in> set post" by auto
    moreover have "A \<notin> set post"
    proof
      assume "A \<in> set post"
      with sorted pp have "?k B \<le> ?k A" by (auto simp: sorted_append)
      with assms(6) show False by simp
    qed
    ultimately show ?thesis using pp by blast
  qed
  let ?blank = "\<lparr>cwidth = SHEET_WIDTH, cheight = SHEET_HEIGHT, cpixel = (\<lambda>x y. transparent)\<rparr>"
  from assms(7) obtain rb ra where rows: "ANIMATION_OFFSETS = rb @ (a, yPos) # ra"
    by (metis split_list)
  let ?c1 = "foldl (drawRow blend sprites ?s) ?blank rb"
  let ?c2 = "drawRow blend sprites ?s ?c1 (a, yPos)"
  have dims: "x < cwidth ?c1" "yPos + y < cheight ?c1"
    using assms(9,10) drawRows_dims[of blend sprites ?s ?blank rb] by simp_all
  have top: "list_all (\<lambda>C. C = B \<or> ?k C < ?k B \<or> clearAt sprites a C x y) ?s"
    using assms(19) set by (simp add: list_all_iff)
  have B: "B \<in> set ?s" using assms(5) set by simp
  have c2: "?c2 = foldl (drawLayer blend sprites a yPos) ?c1 ?s"
    by (simp add: drawRow_def)
  have p2: "cpixel ?c2 x (yPos + y) = ipixel imgB x y"
    unfolding c2
    by (rule row_topmost[where k = ?k and c = ?c1, OF sorted B top assms(15,16,17,18) dims])
  have later: "list_all (\<lambda>row. yPos + y < snd row) ra"
  proof -
    have "\<forall>r\<in>set ra. yPos < snd r"
      using offsets_increasing unfolding rows by (auto simp: sorted_wrt_append)
    moreover have "\<forall>r\<in>set ra. snd r \<le> yPos \<or> yPos + y < snd r"
      using assms(8) unfolding rows by (auto simp: list_all_iff)
    ultimately show ?thesis by (fastforce simp: list_all_iff)
  qed
  have "cpixel (foldl (drawRow blend sprites ?s) ?c2 ra) x (yPos + y) = ipixel imgB x y"
    using drawRows_above[OF later] p2 by simp
  moreover have "generateSpritesheet blend sprites d = Inr (foldl (drawRow blend sprites ?s) ?c2 ra)"
    using generateSpritesheet_ok[OF assms(1,2), of blend sprites] unfolding rows by simp
  ultimately show "\<exists>cv. generateSpritesheet blend sprites d = Inr cv
             \<and> cpixel cv x (yPos + y) = ipixel imgB x y"
    by blast
qed

text \<open>Hair above body in the row \<open>walk\<close>, the hair first in the request.\<close>

theorem higher_zPos_on_top_witness:
  "\<forall>blend.
     sortByZPos [\<lparr>fileName = ''hair/brown.png'', zPos = Some 120, variant = None\<rparr>,
                 \<lparr>fileName = ''body/light.png'', zPos = Some 10, variant = None\<rparr>]
       = [\<lparr>fileName = ''body/light.png'', zPos = Some 10, variant = None\<rparr>,
          \<lparr>fileName = ''hair/brown.png'', zPos = Some 120, variant = None\<rparr>]
   \<and> (\<exists>cv. generateSpritesheet blend
          (\<lambda>base anim file.
             if anim = ''walk'' \<and> base = ''body''
               then Some \<lparr>iwidth = 832, iheight = 256, ipixel = (\<lambda>x y. (200, 150, 100, 255))\<rparr>
             else if anim = ''walk'' \<and> base = ''hair''
               then Some \<lparr>iwidth = 832, iheight = 256, ipixel = (\<lambda>x y. (90, 60, 30, 255))\<rparr>
             else None)
          \<lparr>bodyTypeName = ''male'',
           layers = Some [\<lparr>fileName = ''hair/brown.png'', zPos = Some 120, variant = None\<rparr>,
                          \<lparr>fileName = ''body/light.png'', zPos = Some 10, variant = None\<rparr>]\<rparr>
          = Inr cv
        \<and> cpixel cv 5 519 = (90, 60, 30, 255))"
proof
  fix blend :: "rgba \<Rightarrow> rgba \<Rightarrow> rgba"
  let ?A = "\<lparr>fileName = ''body/light.png'', zPos = Some 10, variant = None\<rparr>"
  let ?B = "\<lparr>fileName = ''hair/brown.png'', zPos = Some 120, variant = None\<rparr>"
  let ?imgA = "\<lparr>iwidth = 832, iheight = 256, ipixel = (\<lambda>x y. (200, 150, 100, 255))\<rparr> :: image"
  let ?imgB = "\<lparr>iwidth = 832, iheight = 256, ipixel = (\<lambda>x y. (90, 60, 30, 255))\<rparr> :: image"
  let ?sprites = "\<lambda>base anim file.
             if anim = ''walk'' \<and> base = ''body'' then Some ?imgA
             else if anim = ''walk'' \<and> base = ''hair'' then Some ?imgB
             else None"
  let ?ls = "[?B, ?A]"
  let ?d = "\<lparr>bodyTypeName = ''male'', layers = Some ?ls\<rparr>"
  have h1: "bodyTypeName ?d \<noteq> []" by simp
  have h2: "layers ?d = Some ?ls" by simp
  have h3: "list_all (\<lambda>l. zPos l \<noteq> None) ?ls" by simp
  have h4: "?A \<in> set ?ls" by simp
  have h5: "?B \<in> set ?ls" by simp
  have h6: "the (zPos ?A) < the (zPos ?B)" by simp
  have h7: "(''walk'', 512) \<in> set ANIMATION_OFFSETS"
    by (simp add: ANIMATION_OFFSETS_def FRAME_SIZE_def)
  have h8: "list_all (\<lambda>row. snd row \<le> 512 \<or> 512 + 7 < snd row) ANIMATION_OFFSETS"
    by (simp add: ANIMATION_OFFSETS_def FRAME_SIZE_def)
  have h9: "5 < SHEET_WIDTH" by (simp add: SHEET_WIDTH_def)
  have h10: "512 + 7 < SHEET_HEIGHT" by (simp add: SHEET_HEIGHT_def)
  have h11: "?sprites (basePathOf (fileName ?A)) ''walk'' (filenameOf (fileName ?A)) = Some ?imgA"
    by (simp add: basePathOf_def filenameOf_def)
  have h12: "5 < iwidth ?imgA" by simp
  have h13: "7 < iheight ?imgA" by simp
  have h14: "alpha (ipixel ?imgA 5 7) = 255" by (simp add: alpha_def)
  have h15: "?sprites (basePathOf (fileName ?B)) ''walk'' (filenameOf (fileName ?B)) = Some ?imgB"
    by (simp add: basePathOf_def filenameOf_def)
  have h16: "5 < iwidth ?imgB" by simp
  have h17: "7 < iheight ?imgB" by simp
  have h18: "alpha (ipixel ?imgB 5 7) = 255" by (simp add: alpha_def)
  have h19: "list_all (\<lambda>C. C = ?B \<or> the (zPos C) < the (zPos ?B) \<or> clearAt ?sprites ''walk'' C 5 7) ?ls"
    by simp
  have s: "sortByZPos ?ls = [?A, ?B]"
    by (simp add: sortByZPos_def jsSort_def compareZPos_def)
  from higher_zPos_on_top[OF h1 h2 h3 h4 h5 h6 h7 h8 h9 h10 h11 h12 h13 h14 h15 h16 h17 h18 h19, of blend]
  have "\<exists>cv. generateSpritesheet blend ?sprites ?d = Inr cv \<and> cpixel cv 5 (512 + 7) = ipixel ?imgB 5 7"
    by blast
  then have "\<exists>cv. generateSpritesheet blend ?sprites ?d = Inr cv \<and> cpixel cv 5 519 = (90, 60, 30, 255)"
    by simp
  with s show "sortByZPos ?ls = [?A, ?B]
      \<and> (\<exists>cv. generateSpritesheet blend ?sprites ?d = Inr cv \<and> cpixel cv 5 519 = (90, 60, 30, 255))"
    by blast
qed

section \<open>The request handler\<close>

lemma apiGenerate_valid:
  assumes "bodyTypeName req \<noteq> []" and "layers req = Some ls" and "ls \<noteq> []"
    and "list_all (\<lambda>l. fileName l \<noteq> [] \<and> zPos l \<noteq> None) ls"
  shows "apiGenerate digest blend sprites toBuffer now d cache req =
     (let diskCached = getCachedSpritesheet digest d (bodyTypeName req) (Some ls) in
      if hit diskCached
      then (Png DISK_HIT (hash diskCached) (buffer diskCached), cache)
      else
        (case cacheGet cache now (memoryKey (bodyTypeName req) ls) of
           Some memoryCached \<Rightarrow> (Png MEMORY_HIT None (Some memoryCached), cache)
         | None \<Rightarrow>
             (case generateSpritesheet blend sprites req of
                Inl (Error msg) \<Rightarrow> (Json 500 ''Generation failed'' msg, cache)
              | Inr cv \<Rightarrow>
                  (Png MISS None (Some (toBuffer cv)),
                   cacheSet cache now (memoryKey (bodyTypeName req) ls) (toBuffer cv)))))"
proof -
  have "\<not> list_ex (\<lambda>l. fileName l = [] \<or> zPos l = None) ls"
    using assms(4) by (auto simp: list_all_iff list_ex_iff)
  then show ?thesis
    using assms(1,2,3) by (simp add: apiGenerate_def Let_def)
qed

text \<open>
  C2. For a request that passes the validation of the handler and whose fingerprint has a
  readable entry in the cache directory, the answer is that entry with \<open>X-Cache: DISK-HIT\<close>
  and the fingerprint as \<open>X-Cache-Key\<close>. The answer does not depend on the memory cache,
  which stays as it is, nor on the sprites.
\<close>

theorem disk_hit_first:
  assumes "bodyTypeName req \<noteq> []" and "layers req = Some ls" and "ls \<noteq> []"
    and "list_all (\<lambda>l. fileName l \<noteq> [] \<and> zPos l \<noteq> None) ls"
    and "fs_readFile d (getCachePath (generateCacheKey digest (bodyTypeName req) ls)) = Inr buf"
  shows "apiGenerate digest blend sprites toBuffer now d cache req =
           (Png DISK_HIT (Some (generateCacheKey digest (bodyTypeName req) ls)) (Some buf), cache)"
  using assms(5)
  by (simp add: apiGenerate_valid[OF assms(1,2,3,4)] getCachedSpritesheet_def)

text \<open>The entry on the disk wins over a different entry in the memory cache.\<close>

theorem disk_hit_first_witness:
  "\<forall>digest blend sprites toBuffer now.
     apiGenerate digest blend sprites toBuffer now
       \<lparr>files = [(getCachePath (generateCacheKey digest ''male''
                     [\<lparr>fileName = ''body/light.png'', zPos = Some 10, variant = None\<rparr>]), ''DISK'')],
        faults = []\<rparr>
       ((\<lambda>k. None)(memoryKey ''male''
            [\<lparr>fileName = ''body/light.png'', zPos = Some 10, variant = None\<rparr>]
          \<mapsto> (''STALE'', now + 1000)))
       \<lparr>bodyTypeName = ''male'',
        layers = Some [\<lparr>fileName = ''body/light.png'', zPos = Some 10, variant = None\<rparr>]\<rparr>
     = (Png DISK_HIT
          (Some (generateCacheKey digest ''male''
                   [\<lparr>fileName = ''body/light.png'', zPos = Some 10, variant = None\<rparr>]))
          (Some ''DISK''),
        (\<lambda>k. None)(memoryKey ''male''
            [\<lparr>fileName = ''body/light.png'', zPos = Some 10, variant = None\<rparr>]
          \<mapsto> (''STALE'', now + 1000)))"
proof (intro allI)
  fix digest :: "string \<Rightarrow> string" and blend :: "rgba \<Rightarrow> rgba \<Rightarrow> rgba"
    and sprites :: "string \<Rightarrow> string \<Rightarrow> string \<Rightarrow> image option" and toBuffer :: "canvas \<Rightarrow> string"
    and now :: nat
  let ?ls = "[\<lparr>fileName = ''body/light.png'', zPos = Some 10, variant = None\<rparr>]"
  let ?req = "\<lparr>bodyTypeName = ''male'', layers = Some ?ls\<rparr>"
  let ?p = "getCachePath (generateCacheKey digest ''male'' ?ls)"
  let ?d = "\<lparr>files = [(?p, ''DISK'')], faults = []\<rparr>"
  let ?cache = "(\<lambda>k. None)(memoryKey ''male'' ?ls \<mapsto> (''STALE'', now + 1000))"
  have h1: "bodyTypeName ?req \<noteq> []" by simp
  have h2: "layers ?req = Some ?ls" by simp
  have h3: "?ls \<noteq> []" by simp
  have h4: "list_all (\<lambda>l. fileName l \<noteq> [] \<and> zPos l \<noteq> None) ?ls" by simp
  have h5: "fs_readFile ?d (getCachePath (generateCacheKey digest (bodyTypeName ?req) ?ls)) = Inr ''DISK''"
    by (simp add: fs_readFile_def)
  from disk_hit_first[OF h1 h2 h3 h4 h5, of blend sprites toBuffer now ?cache]
  show "apiGenerate digest blend sprites toBuffer now ?d ?cache ?req
      = (Png DISK_HIT (Some (generateCacheKey digest ''male'' ?ls)) (Some ''DISK''), ?cache)"
    by simp
qed

text \<open>
  C7. For a valid request that is in neither cache, the first call generates the sheet
  (\<open>X-Cache: MISS\<close>) and stores it in the memory cache; a second call, not later than the
  3600 seconds of the TTL after the first, answers the same bytes from the memory cache.
\<close>

theorem generated_then_memory_hit:
  assumes "bodyTypeName req \<noteq> []" and "layers req = Some ls" and "ls \<noteq> []"
    and "list_all (\<lambda>l. fileName l \<noteq> [] \<and> zPos l \<noteq> None) ls"
    and "\<not> hit (getCachedSpritesheet digest d (bodyTypeName req) (Some ls))"
    and "cacheGet cache t1 (memoryKey (bodyTypeName req) ls) = None"
    and "t2 \<le> t1 + 3600 * 1000"
  shows "\<exists>cv cache'.
           generateSpritesheet blend sprites req = Inr cv
         \<and> apiGenerate digest blend sprites toBuffer t1 d cache req
             = (Png MISS None (Some (toBuffer cv)), cache')
         \<and> apiGenerate digest blend sprites toBuffer t2 d cache' req
             = (Png MEMORY_HIT None (Some (toBuffer cv)), cache')"
proof -
  obtain cv where cv: "generateSpritesheet blend sprites req = Inr cv"
    using generateSpritesheet_ok[OF assms(1,2)] by blast
  let ?key = "memoryKey (bodyTypeName req) ls"
  let ?cache' = "cacheSet cache t1 ?key (toBuffer cv)"
  have first: "apiGenerate digest blend sprites toBuffer t1 d cache req
             = (Png MISS None (Some (toBuffer cv)), ?cache')"
    using assms(5,6) cv by (simp add: apiGenerate_valid[OF assms(1,2,3,4)])
  have "cacheGet ?cache' t2 ?key = Some (toBuffer cv)"
    using assms(7) by (simp add: cacheGet_def cacheSet_def stdTTL_def)
  then have "apiGenerate digest blend sprites toBuffer t2 d ?cache' req
             = (Png MEMORY_HIT None (Some (toBuffer cv)), ?cache')"
    using assms(5) by (simp add: apiGenerate_valid[OF assms(1,2,3,4)])
  with cv first show ?thesis by blast
qed

text \<open>The two layers of the example, on empty caches, one second apart.\<close>

theorem generated_then_memory_hit_witness:
  "\<forall>digest blend toBuffer.
     apiGenerate digest blend (\<lambda>p a f. None) toBuffer 1000 \<lparr>files = [], faults = []\<rparr> (\<lambda>k. None)
       \<lparr>bodyTypeName = ''male'',
        layers = Some [\<lparr>fileName = ''body/light'', zPos = Some 10, variant = None\<rparr>,
                       \<lparr>fileName = ''hair/brown'', zPos = Some 120, variant = None\<rparr>]\<rparr>
     = (Png MISS None
          (Some (toBuffer \<lparr>cwidth = 832, cheight = 3456, cpixel = (\<lambda>x y. transparent)\<rparr>)),
        cacheSet (\<lambda>k. None) 1000
          (memoryKey ''male''
            [\<lparr>fileName = ''body/light'', zPos = Some 10, variant = None\<rparr>,
             \<lparr>fileName = ''hair/brown'', zPos = Some 120, variant = None\<rparr>])
          (toBuffer \<lparr>cwidth = 832, cheight = 3456, cpixel = (\<lambda>x y. transparent)\<rparr>))
   \<and> fst (apiGenerate digest blend (\<lambda>p a f. None) toBuffer 2000 \<lparr>files = [], faults = []\<rparr>
        (cacheSet (\<lambda>k. None) 1000
          (memoryKey ''male''
            [\<lparr>fileName = ''body/light'', zPos = Some 10, variant = None\<rparr>,
             \<lparr>fileName = ''hair/brown'', zPos = Some 120, variant = None\<rparr>])
          (toBuffer \<lparr>cwidth = 832, cheight = 3456, cpixel = (\<lambda>x y. transparent)\<rparr>))
        \<lparr>bodyTypeName = ''male'',
         layers = Some [\<lparr>fileName = ''body/light'', zPos = Some 10, variant = None\<rparr>,
                        \<lparr>fileName = ''hair/brown'', zPos = Some 120, variant = None\<rparr>]\<rparr>)
     = Png MEMORY_HIT None
         (Some (toBuffer \<lparr>cwidth = 832, cheight = 3456, cpixel = (\<lambda>x y. transparent)\<rparr>))"
proof (intro allI)
  fix digest :: "string \<Rightarrow> string" and blend :: "rgba \<Rightarrow> rgba \<Rightarrow> rgba" and toBuffer :: "canvas \<Rightarrow> string"
  let ?ls = "[\<lparr>fileName = ''body/light'', zPos = Some 10, variant = None\<rparr>,
              \<lparr>fileName = ''hair/brown'', zPos = Some 120, variant = None\<rparr>]"
  let ?req = "\<lparr>bodyTypeName = ''male'', layers = Some ?ls\<rparr>"
  let ?d = "\<lparr>files = [], faults = []\<rparr>"
  let ?blank = "\<lparr>cwidth = 832, cheight = 3456, cpixel = (\<lambda>x y. transparent)\<rparr>"
  let ?none = "\<lambda>p a f. None :: image option"
  have h1: "bodyTypeName ?req \<noteq> []" by simp
  have h2: "layers ?req = Some ?ls" by simp
  have h3: "?ls \<noteq> []" by simp
  have h4: "list_all (\<lambda>l. fileName l \<noteq> [] \<and> zPos l \<noteq> None) ?ls" by simp
  have h5: "\<not> hit (getCachedSpritesheet digest ?d (bodyTypeName ?req) (Some ?ls))"
    by (simp add: getCachedSpritesheet_def fs_readFile_def)
  have h6: "cacheGet (\<lambda>k. None) 1000 (memoryKey (bodyTypeName ?req) ?ls) = None"
    by (simp add: cacheGet_def)
  have h7: "(2000 :: nat) \<le> 1000 + 3600 * 1000" by simp
  have gen: "generateSpritesheet blend ?none ?req = Inr ?blank"
    using generateSpritesheet_ok[OF h1 h2, of blend ?none]
    by (simp add: drawRows_all_miss list_all_iff SHEET_WIDTH_def SHEET_HEIGHT_def)
  from generated_then_memory_hit[OF h1 h2 h3 h4 h5 h6 h7, of blend ?none toBuffer]
  obtain cv cache' where
    "generateSpritesheet blend ?none ?req = Inr cv"
    "apiGenerate digest blend ?none toBuffer 1000 ?d (\<lambda>k. None) ?req = (Png MISS None (Some (toBuffer cv)), cache')"
    "apiGenerate digest blend ?none toBuffer 2000 ?d cache' ?req = (Png MEMORY_HIT None (Some (toBuffer cv)), cache')"
    by blast
  moreover have "apiGenerate digest blend ?none toBuffer 1000 ?d (\<lambda>k. None) ?req
      = (Png MISS None (Some (toBuffer ?blank)), cacheSet (\<lambda>k. None) 1000 (memoryKey ''male'' ?ls) (toBuffer ?blank))"
    using h5 h6 gen by (simp add: apiGenerate_valid[OF h1 h2 h3 h4])
  ultimately show "apiGenerate digest blend ?none toBuffer 1000 ?d (\<lambda>k. None) ?req
      = (Png MISS None (Some (toBuffer ?blank)), cacheSet (\<lambda>k. None) 1000 (memoryKey ''male'' ?ls) (toBuffer ?blank))
    \<and> fst (apiGenerate digest blend ?none toBuffer 2000 ?d
          (cacheSet (\<lambda>k. None) 1000 (memoryKey ''male'' ?ls) (toBuffer ?blank)) ?req)
      = Png MEMORY_HIT None (Some (toBuffer ?blank))"
    using gen by simp
qed

section \<open>Storage errors\<close>

lemma map_of_putEntry: "map_of (putEntry k v es) k = Some v"
  by (induction es) auto

lemma saveCachedSpritesheet_ok:
  assumes "Mkdir \<notin> set (faults d)"
    and "WriteFile (getCachePath (generateCacheKey digest b ls)) \<notin> set (faults d)"
    and "writtenBeforeError (faults d) (getCachePath (generateCacheKey digest b ls)) = None"
  shows "fst (saveCachedSpritesheet digest d b (Some ls) buf) = Some (generateCacheKey digest b ls)
       \<and> map_of (files (snd (saveCachedSpritesheet digest d b (Some ls) buf)))
            (getCachePath (generateCacheKey digest b ls)) = Some buf"
  using assms
  by (simp add: saveCachedSpritesheet_def fs_mkdir_def fs_writeFile_def map_of_putEntry)

lemma saveCachedSpritesheet_fault:
  assumes "Mkdir \<in> set (faults d)
      \<or> WriteFile (getCachePath (generateCacheKey digest b ls)) \<in> set (faults d)
      \<or> writtenBeforeError (faults d) (getCachePath (generateCacheKey digest b ls)) \<noteq> None"
  shows "fst (saveCachedSpritesheet digest d b (Some ls) buf) = None"
  using assms
  by (auto simp: saveCachedSpritesheet_def fs_mkdir_def fs_writeFile_def split: option.splits)

lemma hit_getCachedSpritesheet:
  "hit (getCachedSpritesheet digest d b lso)
   = (\<exists>ls buf. lso = Some ls
        \<and> fs_readFile d (getCachePath (generateCacheKey digest b ls)) = Inr buf)"
  by (auto simp: getCachedSpritesheet_def split: option.splits sum.splits)

text \<open>
  C6. A storage error is not surfaced. When the medium fails to read the entry,
  \<open>getCachedSpritesheet\<close> answers the miss it answers for an entry that is not there. When
  the medium fails to create the directory, to open the file or to finish writing it,
  \<open>saveCachedSpritesheet\<close> answers \<open>null\<close>: the store is as it was in the first two cases,
  and holds the bytes written so far in the third. The pre-generation loop then records the
  item as generated, with no hash. Each part holds under its own fault alone.
\<close>

theorem storage_errors_absorbed:
  "(let p = getCachePath (generateCacheKey digest b ls);
        def = \<lparr>bodyTypeName = b, layers = Some ls\<rparr>;
        putFault = (Mkdir \<in> set (faults d) \<or> WriteFile p \<in> set (faults d)
                     \<or> writtenBeforeError (faults d) p \<noteq> None)
    in (ReadFile p \<in> set (faults d) \<longrightarrow>
          getCachedSpritesheet digest d b (Some ls) = \<lparr>buffer = None, hash = None, hit = False\<rparr>
        \<and> getCachedSpritesheet digest d b (Some ls)
            = getCachedSpritesheet digest \<lparr>files = [], faults = []\<rparr> b (Some ls))
     \<and> (putFault \<longrightarrow> fst (saveCachedSpritesheet digest d b (Some ls) buf) = None)
     \<and> (Mkdir \<in> set (faults d) \<or> WriteFile p \<in> set (faults d) \<longrightarrow>
          snd (saveCachedSpritesheet digest d b (Some ls) buf) = d)
     \<and> (Mkdir \<notin> set (faults d) \<and> WriteFile p \<notin> set (faults d)
          \<and> writtenBeforeError (faults d) p = Some n \<longrightarrow>
          snd (saveCachedSpritesheet digest d b (Some ls) buf)
            = d\<lparr>files := putEntry p (take n buf) (files d)\<rparr>)
     \<and> (putFault \<and> \<not> hit (getCachedSpritesheet digest d b (Some ls)) \<and> b \<noteq> [] \<longrightarrow>
          (\<exists>cv. generateSpritesheet blend sprites def = Inr cv
             \<and> preGenerate digest blend sprites toBuffer d [Some def]
                = (Report 1 1 0 0 [Generated b None (length (toBuffer cv))],
                   snd (saveCachedSpritesheet digest d b (Some ls) (toBuffer cv))))))"
proof -
  let ?p = "getCachePath (generateCacheKey digest b ls)"
  let ?def = "\<lparr>bodyTypeName = b, layers = Some ls\<rparr>"
  let ?putFault = "Mkdir \<in> set (faults d) \<or> WriteFile ?p \<in> set (faults d)
                     \<or> writtenBeforeError (faults d) ?p \<noteq> None"
  have get: "getCachedSpritesheet digest d b (Some ls) = \<lparr>buffer = None, hash = None, hit = False\<rparr>"
    if "ReadFile ?p \<in> set (faults d)"
    using that by (simp add: getCachedSpritesheet_def fs_readFile_def)
  have get': "getCachedSpritesheet digest \<lparr>files = [], faults = []\<rparr> b (Some ls)
      = \<lparr>buffer = None, hash = None, hit = False\<rparr>"
    by (simp add: getCachedSpritesheet_def fs_readFile_def)
  have put: "fst (saveCachedSpritesheet digest d b (Some ls) buf) = None" if ?putFault for buf
    using that by (rule saveCachedSpritesheet_fault)
  have same: "snd (saveCachedSpritesheet digest d b (Some ls) buf) = d"
    if "Mkdir \<in> set (faults d) \<or> WriteFile ?p \<in> set (faults d)"
    using that by (auto simp: saveCachedSpritesheet_def fs_mkdir_def fs_writeFile_def)
  have part: "snd (saveCachedSpritesheet digest d b (Some ls) buf)
            = d\<lparr>files := putEntry ?p (take n buf) (files d)\<rparr>"
    if "Mkdir \<notin> set (faults d) \<and> WriteFile ?p \<notin> set (faults d)
          \<and> writtenBeforeError (faults d) ?p = Some n"
    using that by (simp add: saveCachedSpritesheet_def fs_mkdir_def fs_writeFile_def)
  have pre: "\<exists>cv. generateSpritesheet blend sprites ?def = Inr cv
             \<and> preGenerate digest blend sprites toBuffer d [Some ?def]
                = (Report 1 1 0 0 [Generated b None (length (toBuffer cv))],
                   snd (saveCachedSpritesheet digest d b (Some ls) (toBuffer cv)))"
    if h: "?putFault \<and> \<not> hit (getCachedSpritesheet digest d b (Some ls)) \<and> b \<noteq> []"
  proof -
    obtain cv where cv: "generateSpritesheet blend sprites ?def = Inr cv"
      using h by (simp add: generateSpritesheet_def)
    from h have ?putFault by simp
    then have pf: "fst (saveCachedSpritesheet digest d b (Some ls) (toBuffer cv)) = None"
      by (rule put)
    from h have miss: "\<not> hit (getCachedSpritesheet digest d b (Some ls))" by simp
    have "preGenerate digest blend sprites toBuffer d [Some ?def]
        = (Report 1 1 0 0 [Generated b None (length (toBuffer cv))],
           snd (saveCachedSpritesheet digest d b (Some ls) (toBuffer cv)))"
      using pf miss
      by (auto simp: preGenerate_def preGenerateItem_def cv split: prod.splits)
    with cv show ?thesis by blast
  qed
  show ?thesis
    unfolding Let_def using get get' put same part pre by presburger
qed

text \<open>
  An entry that is on the disk and cannot be read; a directory that cannot be created; a
  write that fails after two bytes.
\<close>

theorem storage_errors_absorbed_witness:
  "\<forall>digest blend sprites toBuffer.
     getCachedSpritesheet digest
        \<lparr>files = [(getCachePath (generateCacheKey digest ''male''
                      [\<lparr>fileName = ''body/light.png'', zPos = Some 10, variant = None\<rparr>]), ''PNG'')],
         faults = [ReadFile (getCachePath (generateCacheKey digest ''male''
                      [\<lparr>fileName = ''body/light.png'', zPos = Some 10, variant = None\<rparr>]))]\<rparr>
        ''male'' (Some [\<lparr>fileName = ''body/light.png'', zPos = Some 10, variant = None\<rparr>])
     = \<lparr>buffer = None, hash = None, hit = False\<rparr>
   \<and> saveCachedSpritesheet digest \<lparr>files = [], faults = [Mkdir]\<rparr>
        ''male'' (Some [\<lparr>fileName = ''body/light.png'', zPos = Some 10, variant = None\<rparr>]) ''NEW''
     = (None, \<lparr>files = [], faults = [Mkdir]\<rparr>)
   \<and> saveCachedSpritesheet digest
        \<lparr>files = [],
         faults = [TruncatedWrite (getCachePath (generateCacheKey digest ''male''
                      [\<lparr>fileName = ''body/light.png'', zPos = Some 10, variant = None\<rparr>])) 2]\<rparr>
        ''male'' (Some [\<lparr>fileName = ''body/light.png'', zPos = Some 10, variant = None\<rparr>]) ''NEW''
     = (None,
        \<lparr>files = [(getCachePath (generateCacheKey digest ''male''
                      [\<lparr>fileName = ''body/light.png'', zPos = Some 10, variant = None\<rparr>]), ''NE'')],
         faults = [TruncatedWrite (getCachePath (generateCacheKey digest ''male''
                      [\<lparr>fileName = ''body/light.png'', zPos = Some 10, variant = None\<rparr>])) 2]\<rparr>)
   \<and> (\<exists>cv. preGenerate digest blend sprites toBuffer \<lparr>files = [], faults = [Mkdir]\<rparr>
               [Some \<lparr>bodyTypeName = ''male'',
                      layers = Some [\<lparr>fileName = ''body/light.png'', zPos = Some 10,
                                      variant = None\<rparr>]\<rparr>]
             = (Report 1 1 0 0 [Generated ''male'' None (length (toBuffer cv))],
                \<lparr>files = [], faults = [Mkdir]\<rparr>))"
proof (intro allI)
  fix digest :: "string \<Rightarrow> string" and blend :: "rgba \<Rightarrow> rgba \<Rightarrow> rgba"
    and sprites :: "string \<Rightarrow> string \<Rightarrow> string \<Rightarrow> image option" and toBuffer :: "canvas \<Rightarrow> string"
  let ?ls = "[\<lparr>fileName = ''body/light.png'', zPos = Some 10, variant = None\<rparr>]"
  let ?p = "getCachePath (generateCacheKey digest ''male'' ?ls)"
  let ?d1 = "\<lparr>files = [(?p, ''PNG'')], faults = [ReadFile ?p]\<rparr>"
  let ?d2 = "\<lparr>files = [], faults = [Mkdir]\<rparr>"
  let ?d3 = "\<lparr>files = [], faults = [TruncatedWrite ?p 2]\<rparr>"
  have miss: "\<not> hit (getCachedSpritesheet digest ?d2 ''male'' (Some ?ls))"
    by (simp add: getCachedSpritesheet_def fs_readFile_def)
  have keep: "snd (saveCachedSpritesheet digest ?d2 ''male'' (Some ?ls) buf) = ?d2" for buf
    by (simp add: saveCachedSpritesheet_def fs_mkdir_def)
  from storage_errors_absorbed[where digest = digest and b = "''male''" and ls = ?ls and d = ?d1]
  have c1: "getCachedSpritesheet digest ?d1 ''male'' (Some ?ls)
      = \<lparr>buffer = None, hash = None, hit = False\<rparr>"
    unfolding Let_def by simp
  from storage_errors_absorbed[where digest = digest and b = "''male''" and ls = ?ls and d = ?d2
      and buf = "''NEW''" and blend = blend and sprites = sprites and toBuffer = toBuffer]
  have c2: "saveCachedSpritesheet digest ?d2 ''male'' (Some ?ls) ''NEW'' = (None, ?d2)"
    and c4: "\<exists>cv. preGenerate digest blend sprites toBuffer ?d2
               [Some \<lparr>bodyTypeName = ''male'', layers = Some ?ls\<rparr>]
             = (Report 1 1 0 0 [Generated ''male'' None (length (toBuffer cv))], ?d2)"
    unfolding Let_def using miss by (auto simp: prod_eq_iff keep)
  from storage_errors_absorbed[where digest = digest and b = "''male''" and ls = ?ls and d = ?d3
      and buf = "''NEW''" and n = 2]
  have c3: "saveCachedSpritesheet digest ?d3 ''male'' (Some ?ls) ''NEW''
      = (None, \<lparr>files = [(?p, ''NE'')], faults = [TruncatedWrite ?p 2]\<rparr>)"
    unfolding Let_def by (simp add: prod_eq_iff)
  from c1 c2 c3 c4
  show "getCachedSpritesheet digest ?d1 ''male'' (Some ?ls) = \<lparr>buffer = None, hash = None, hit = False\<rparr>
      \<and> saveCachedSpritesheet digest ?d2 ''male'' (Some ?ls) ''NEW'' = (None, ?d2)
      \<and> saveCachedSpritesheet digest ?d3 ''male'' (Some ?ls) ''NEW''
          = (None, \<lparr>files = [(?p, ''NE'')], faults = [TruncatedWrite ?p 2]\<rparr>)
      \<and> (\<exists>cv. preGenerate digest blend sprites toBuffer ?d2
               [Some \<lparr>bodyTypeName = ''male'', layers = Some ?ls\<rparr>]
             = (Report 1 1 0 0 [Generated ''male'' None (length (toBuffer cv))], ?d2))"
    by blast
qed

text \<open>
  C6 as stated fails: the read that ends in \<open>EIO\<close> gives the lookup of an empty store, and
  the write that ends in \<open>EIO\<close>, before the file is opened or after two bytes, gives no
  key and no error.
\<close>

theorem storage_errors_counterexample:
  "\<forall>digest.
     fs_readFile
        \<lparr>files = [(getCachePath (generateCacheKey digest ''male''
                      [\<lparr>fileName = ''body/light.png'', zPos = Some 10, variant = None\<rparr>]), ''PNG'')],
         faults = [ReadFile (getCachePath (generateCacheKey digest ''male''
                      [\<lparr>fileName = ''body/light.png'', zPos = Some 10, variant = None\<rparr>]))]\<rparr>
        (getCachePath (generateCacheKey digest ''male''
                      [\<lparr>fileName = ''body/light.png'', zPos = Some 10, variant = None\<rparr>]))
     = Inl EIO
   \<and> getCachedSpritesheet digest
        \<lparr>files = [(getCachePath (generateCacheKey digest ''male''
                      [\<lparr>fileName = ''body/light.png'', zPos = Some 10, variant = None\<rparr>]), ''PNG'')],
         faults = [ReadFile (getCachePath (generateCacheKey digest ''male''
                      [\<lparr>fileName = ''body/light.png'', zPos = Some 10, variant = None\<rparr>]))]\<rparr>
        ''male'' (Some [\<lparr>fileName = ''body/light.png'', zPos = Some 10, variant = None\<rparr>])
     = getCachedSpritesheet digest \<lparr>files = [], faults = []\<rparr>
        ''male'' (Some [\<lparr>fileName = ''body/light.png'', zPos = Some 10, variant = None\<rparr>])
   \<and> fst (fs_writeFile
        \<lparr>files = [],
         faults = [WriteFile (getCachePath (generateCacheKey digest ''male''
                      [\<lparr>fileName = ''body/light.png'', zPos = Some 10, variant = None\<rparr>]))]\<rparr>
        (getCachePath (generateCacheKey digest ''male''
                      [\<lparr>fileName = ''body/light.png'', zPos = Some 10, variant = None\<rparr>])) ''PNG'')
     = Some EIO
   \<and> fst (saveCachedSpritesheet digest
        \<lparr>files = [],
         faults = [WriteFile (getCachePath (generateCacheKey digest ''male''
                      [\<lparr>fileName = ''body/light.png'', zPos = Some 10, variant = None\<rparr>]))]\<rparr>
        ''male'' (Some [\<lparr>fileName = ''body/light.png'', zPos = Some 10, variant = None\<rparr>]) ''PNG'')
     = None
   \<and> fst (fs_writeFile
        \<lparr>files = [],
         faults = [TruncatedWrite (getCachePath (generateCacheKey digest ''male''
                      [\<lparr>fileName = ''body/light.png'', zPos = Some 10, variant = None\<rparr>])) 2]\<rparr>
        (getCachePath (generateCacheKey digest ''male''
                      [\<lparr>fileName = ''body/light.png'', zPos = Some 10, variant = None\<rparr>])) ''PNG'')
     = Some EIO
   \<and> saveCachedSpritesheet digest
        \<lparr>files = [],
         faults = [TruncatedWrite (getCachePath (generateCacheKey digest ''male''
                      [\<lparr>fileName = ''body/light.png'', zPos = Some 10, variant = None\<rparr>])) 2]\<rparr>
        ''male'' (Some [\<lparr>fileName = ''body/light.png'', zPos = Some 10, variant = None\<rparr>]) ''PNG''
     = (None,
        \<lparr>files = [(getCachePath (generateCacheKey digest ''male''
                      [\<lparr>fileName = ''body/light.png'', zPos = Some 10, variant = None\<rparr>]), ''PN'')],
         faults = [TruncatedWrite (getCachePath (generateCacheKey digest ''male''
                      [\<lparr>fileName = ''body/light.png'', zPos = Some 10, variant = None\<rparr>])) 2]\<rparr>)"
  by (simp add: getCachedSpritesheet_def saveCachedSpritesheet_def fs_readFile_def
        fs_writeFile_def fs_mkdir_def)

section \<open>Pre-generation\<close>

lemma preGenerateLoop_objects:
  "preGenerateLoop digest blend sprites toBuffer st (map Some zs)
   = Inr (foldl (preGenerateItem digest blend sprites toBuffer) st zs)"
  by (induction zs arbitrary: st) simp_all

lemma preGenerateItem_shift:
  "preGenerateItem digest blend sprites toBuffer st def
   = \<lparr>store = store (preGenerateItem digest blend sprites toBuffer
                     \<lparr>store = store st, results = [], generated = 0, alreadyCached = 0, failed = 0\<rparr> def),
      results = results st @ results (preGenerateItem digest blend sprites toBuffer
                     \<lparr>store = store st, results = [], generated = 0, alreadyCached = 0, failed = 0\<rparr> def),
      generated = generated st + generated (preGenerateItem digest blend sprites toBuffer
                     \<lparr>store = store st, results = [], generated = 0, alreadyCached = 0, failed = 0\<rparr> def),
      alreadyCached = alreadyCached st + alreadyCached (preGenerateItem digest blend sprites toBuffer
                     \<lparr>store = store st, results = [], generated = 0, alreadyCached = 0, failed = 0\<rparr> def),
      failed = failed st + failed (preGenerateItem digest blend sprites toBuffer
                     \<lparr>store = store st, results = [], generated = 0, alreadyCached = 0, failed = 0\<rparr> def)\<rparr>"
  by (cases st) (simp add: preGenerateItem_def Let_def split: sum.splits exn.splits prod.splits)

lemma preGenerateItem_one:
  "length (results (preGenerateItem digest blend sprites toBuffer
       \<lparr>store = d, results = [], generated = 0, alreadyCached = 0, failed = 0\<rparr> def)) = 1
   \<and> generated (preGenerateItem digest blend sprites toBuffer
       \<lparr>store = d, results = [], generated = 0, alreadyCached = 0, failed = 0\<rparr> def)
     + alreadyCached (preGenerateItem digest blend sprites toBuffer
       \<lparr>store = d, results = [], generated = 0, alreadyCached = 0, failed = 0\<rparr> def)
     + failed (preGenerateItem digest blend sprites toBuffer
       \<lparr>store = d, results = [], generated = 0, alreadyCached = 0, failed = 0\<rparr> def) = 1"
  by (simp add: preGenerateItem_def Let_def split: sum.splits exn.splits prod.splits)

lemma foldl_preGenerateItem_shift:
  "foldl (preGenerateItem digest blend sprites toBuffer) st zs
   = \<lparr>store = store (foldl (preGenerateItem digest blend sprites toBuffer)
                     \<lparr>store = store st, results = [], generated = 0, alreadyCached = 0, failed = 0\<rparr> zs),
      results = results st @ results (foldl (preGenerateItem digest blend sprites toBuffer)
                     \<lparr>store = store st, results = [], generated = 0, alreadyCached = 0, failed = 0\<rparr> zs),
      generated = generated st + generated (foldl (preGenerateItem digest blend sprites toBuffer)
                     \<lparr>store = store st, results = [], generated = 0, alreadyCached = 0, failed = 0\<rparr> zs),
      alreadyCached = alreadyCached st + alreadyCached (foldl (preGenerateItem digest blend sprites toBuffer)
                     \<lparr>store = store st, results = [], generated = 0, alreadyCached = 0, failed = 0\<rparr> zs),
      failed = failed st + failed (foldl (preGenerateItem digest blend sprites toBuffer)
                     \<lparr>store = store st, results = [], generated = 0, alreadyCached = 0, failed = 0\<rparr> zs)\<rparr>"
proof (induction zs arbitrary: st)
  case Nil
  show ?case by simp
next
  case (Cons z zs)
  let ?item = "preGenerateItem digest blend sprites toBuffer"
  let ?init = "\<lambda>d. \<lparr>store = d, results = [], generated = 0, alreadyCached = 0, failed = 0\<rparr>"
  let ?t = "?item (?init (store st)) z"
  let ?u = "foldl ?item (?init (store ?t)) zs"
  have a: "?item st z = \<lparr>store = store ?t, results = results st @ results ?t,
       generated = generated st + generated ?t, alreadyCached = alreadyCached st + alreadyCached ?t,
       failed = failed st + failed ?t\<rparr>"
    by (rule preGenerateItem_shift)
  have b: "foldl ?item (?item st z) zs
     = \<lparr>store = store ?u, results = (results st @ results ?t) @ results ?u,
        generated = (generated st + generated ?t) + generated ?u,
        alreadyCached = (alreadyCached st + alreadyCached ?t) + alreadyCached ?u,
        failed = (failed st + failed ?t) + failed ?u\<rparr>"
    using Cons.IH[of "?item st z"] unfolding a by simp
  have c: "foldl ?item ?t zs
     = \<lparr>store = store ?u, results = results ?t @ results ?u,
        generated = generated ?t + generated ?u,
        alreadyCached = alreadyCached ?t + alreadyCached ?u,
        failed = failed ?t + failed ?u\<rparr>"
    using Cons.IH[of ?t] by simp
  have "foldl ?item st (z # zs) = foldl ?item (?item st z) zs" by simp
  moreover have "foldl ?item (?init (store st)) (z # zs) = foldl ?item ?t zs" by simp
  ultimately show ?case
    unfolding b c by (simp add: add.assoc)
qed

lemma foldl_preGenerateItem_counts:
  "length (results (foldl (preGenerateItem digest blend sprites toBuffer)
       \<lparr>store = d, results = [], generated = 0, alreadyCached = 0, failed = 0\<rparr> zs)) = length zs
   \<and> generated (foldl (preGenerateItem digest blend sprites toBuffer)
       \<lparr>store = d, results = [], generated = 0, alreadyCached = 0, failed = 0\<rparr> zs)
     + alreadyCached (foldl (preGenerateItem digest blend sprites toBuffer)
       \<lparr>store = d, results = [], generated = 0, alreadyCached = 0, failed = 0\<rparr> zs)
     + failed (foldl (preGenerateItem digest blend sprites toBuffer)
       \<lparr>store = d, results = [], generated = 0, alreadyCached = 0, failed = 0\<rparr> zs) = length zs"
proof (induction zs rule: rev_induct)
  case Nil
  show ?case by simp
next
  case (snoc z zs)
  let ?item = "preGenerateItem digest blend sprites toBuffer"
  let ?s = "foldl ?item \<lparr>store = d, results = [], generated = 0, alreadyCached = 0, failed = 0\<rparr> zs"
  have "foldl ?item \<lparr>store = d, results = [], generated = 0, alreadyCached = 0, failed = 0\<rparr> (zs @ [z])
      = ?item ?s z" by simp
  then show ?case
    using snoc.IH preGenerateItem_one[of digest blend sprites toBuffer "store ?s" z]
    by (simp add: preGenerateItem_shift[of digest blend sprites toBuffer ?s z])
qed

lemma preGenerate_objects:
  "preGenerate digest blend sprites toBuffer d (map Some zs)
   = (Report (length zs)
        (generated (foldl (preGenerateItem digest blend sprites toBuffer)
           \<lparr>store = d, results = [], generated = 0, alreadyCached = 0, failed = 0\<rparr> zs))
        (alreadyCached (foldl (preGenerateItem digest blend sprites toBuffer)
           \<lparr>store = d, results = [], generated = 0, alreadyCached = 0, failed = 0\<rparr> zs))
        (failed (foldl (preGenerateItem digest blend sprites toBuffer)
           \<lparr>store = d, results = [], generated = 0, alreadyCached = 0, failed = 0\<rparr> zs))
        (results (foldl (preGenerateItem digest blend sprites toBuffer)
           \<lparr>store = d, results = [], generated = 0, alreadyCached = 0, failed = 0\<rparr> zs)),
      store (foldl (preGenerateItem digest blend sprites toBuffer)
           \<lparr>store = d, results = [], generated = 0, alreadyCached = 0, failed = 0\<rparr> zs))"
  by (simp add: preGenerate_def preGenerateLoop_objects)

lemma preGenerate_append:
  assumes "preGenerate digest blend sprites toBuffer d (map Some xs) = (Report n1 g1 a1 f1 rs1, s)"
    and "preGenerate digest blend sprites toBuffer s (map Some ys) = (Report n2 g2 a2 f2 rs2, d')"
  shows "preGenerate digest blend sprites toBuffer d (map Some (xs @ ys))
       = (Report (n1 + n2) (g1 + g2) (a1 + a2) (f1 + f2) (rs1 @ rs2), d')"
proof -
  let ?item = "preGenerateItem digest blend sprites toBuffer"
  let ?init = "\<lambda>d. \<lparr>store = d, results = [], generated = 0, alreadyCached = 0, failed = 0\<rparr>"
  let ?t = "foldl ?item (?init d) xs"
  have 1: "n1 = length xs" "g1 = generated ?t" "a1 = alreadyCached ?t" "f1 = failed ?t"
      "rs1 = results ?t" "s = store ?t"
    using assms(1) unfolding preGenerate_objects by simp_all
  let ?u = "foldl ?item (?init s) ys"
  have 2: "n2 = length ys" "g2 = generated ?u" "a2 = alreadyCached ?u" "f2 = failed ?u"
      "rs2 = results ?u" "d' = store ?u"
    using assms(2) unfolding preGenerate_objects by simp_all
  have "foldl ?item (?init d) (xs @ ys) = foldl ?item ?t ys" by simp
  also have "\<dots> = \<lparr>store = store ?u, results = results ?t @ results ?u,
       generated = generated ?t + generated ?u, alreadyCached = alreadyCached ?t + alreadyCached ?u,
       failed = failed ?t + failed ?u\<rparr>"
    using foldl_preGenerateItem_shift[of digest blend sprites toBuffer ?t ys] unfolding 1(6) by simp
  finally have f: "foldl ?item (?init d) (xs @ ys) = \<lparr>store = store ?u, results = results ?t @ results ?u,
       generated = generated ?t + generated ?u, alreadyCached = alreadyCached ?t + alreadyCached ?u,
       failed = failed ?t + failed ?u\<rparr>" .
  show ?thesis
    unfolding preGenerate_objects f 1 2 by simp
qed

lemma preGenerate_single:
  "\<exists>g a f r s'.
     preGenerate digest blend sprites toBuffer s [Some def] = (Report 1 g a f [r], s')
   \<and> g + a + f = 1
   \<and> (hit (getCachedSpritesheet digest s (bodyTypeName def) (layers def)) \<longrightarrow>
        r = AlreadyCached (bodyTypeName def)
              (hash (getCachedSpritesheet digest s (bodyTypeName def) (layers def)))
        \<and> a = 1 \<and> s' = s)
   \<and> (\<not> hit (getCachedSpritesheet digest s (bodyTypeName def) (layers def)) \<longrightarrow>
        (\<forall>msg. generateSpritesheet blend sprites def = Inl (Error msg) \<longrightarrow>
           r = Failed (bodyTypeName def) msg \<and> f = 1 \<and> s' = s)
      \<and> (\<forall>cv. generateSpritesheet blend sprites def = Inr cv \<longrightarrow>
           r = Generated (bodyTypeName def)
                 (fst (saveCachedSpritesheet digest s (bodyTypeName def) (layers def) (toBuffer cv)))
                 (length (toBuffer cv))
           \<and> g = 1
           \<and> s' = snd (saveCachedSpritesheet digest s (bodyTypeName def) (layers def) (toBuffer cv))))"
proof (cases "hit (getCachedSpritesheet digest s (bodyTypeName def) (layers def))")
  case True
  then show ?thesis
    by (simp add: preGenerate_def preGenerateItem_def)
next
  case False
  show ?thesis
  proof (cases "generateSpritesheet blend sprites def")
    case (Inl e)
    then obtain msg where "generateSpritesheet blend sprites def = Inl (Error msg)"
      by (cases e) simp
    with False show ?thesis
      by (simp add: preGenerate_def preGenerateItem_def)
  next
    case (Inr cv)
    with False show ?thesis
      by (simp add: preGenerate_def preGenerateItem_def split: prod.splits)
  qed
qed

text \<open>
  C8. For a batch of objects \<open>xs @ def # ys\<close>, with \<open>s\<close> the store when the turn of \<open>def\<close>
  comes and \<open>s'\<close> the store it leaves: the response is a report with one result per item,
  whose counts add up to the size of the batch, made of the report of \<open>xs\<close> on the first
  store, the result \<open>r\<close> of \<open>def\<close> on \<open>s\<close>, and the report of \<open>ys\<close> on \<open>s'\<close>, so that the items
  after \<open>def\<close> are processed whatever happened to it. An entry that can be read counts the
  item as already cached and leaves the store; otherwise the item is rendered: a failure of
  the rendering is the item's result and leaves the store, and a rendered sheet is handed to
  \<open>saveCachedSpritesheet\<close> and the item counted as generated, with the key in its result
  and the sheet in the store when the store can be written, and with no key on a storage
  error.
\<close>

theorem preGenerate_batch:
  "\<exists>g1 a1 f1 rs1 s g a f r s' g2 a2 f2 rs2 d'.
     preGenerate digest blend sprites toBuffer d (map Some xs) = (Report (length xs) g1 a1 f1 rs1, s)
   \<and> preGenerate digest blend sprites toBuffer s [Some def] = (Report 1 g a f [r], s')
   \<and> preGenerate digest blend sprites toBuffer s' (map Some ys) = (Report (length ys) g2 a2 f2 rs2, d')
   \<and> preGenerate digest blend sprites toBuffer d (map Some (xs @ def # ys))
       = (Report (length xs + 1 + length ys) (g1 + g + g2) (a1 + a + a2) (f1 + f + f2)
            (rs1 @ r # rs2), d')
   \<and> length rs1 = length xs \<and> length rs2 = length ys
   \<and> g1 + a1 + f1 = length xs \<and> g + a + f = 1 \<and> g2 + a2 + f2 = length ys
   \<and> (let cached = getCachedSpritesheet digest s (bodyTypeName def) (layers def) in
        hit cached
          = (\<exists>ls buf. layers def = Some ls
               \<and> fs_readFile s (getCachePath (generateCacheKey digest (bodyTypeName def) ls)) = Inr buf)
      \<and> (hit cached \<longrightarrow>
            r = AlreadyCached (bodyTypeName def) (hash cached) \<and> a = 1 \<and> s' = s)
      \<and> (\<not> hit cached \<longrightarrow>
            (\<forall>msg. generateSpritesheet blend sprites def = Inl (Error msg) \<longrightarrow>
               r = Failed (bodyTypeName def) msg \<and> f = 1 \<and> s' = s)
          \<and> (\<forall>cv ls. generateSpritesheet blend sprites def = Inr cv \<and> layers def = Some ls \<longrightarrow>
               r = Generated (bodyTypeName def)
                     (fst (saveCachedSpritesheet digest s (bodyTypeName def) (Some ls) (toBuffer cv)))
                     (length (toBuffer cv))
               \<and> g = 1
               \<and> s' = snd (saveCachedSpritesheet digest s (bodyTypeName def) (Some ls) (toBuffer cv))
               \<and> (Mkdir \<notin> set (faults s)
                    \<and> WriteFile (getCachePath (generateCacheKey digest (bodyTypeName def) ls))
                         \<notin> set (faults s)
                    \<and> writtenBeforeError (faults s)
                         (getCachePath (generateCacheKey digest (bodyTypeName def) ls)) = None
                  \<longrightarrow> fst (saveCachedSpritesheet digest s (bodyTypeName def) (Some ls) (toBuffer cv))
                        = Some (generateCacheKey digest (bodyTypeName def) ls)
                    \<and> map_of (files s')
                         (getCachePath (generateCacheKey digest (bodyTypeName def) ls))
                        = Some (toBuffer cv))
               \<and> (Mkdir \<in> set (faults s)
                    \<or> WriteFile (getCachePath (generateCacheKey digest (bodyTypeName def) ls))
                         \<in> set (faults s)
                    \<or> writtenBeforeError (faults s)
                         (getCachePath (generateCacheKey digest (bodyTypeName def) ls)) \<noteq> None
                  \<longrightarrow> fst (saveCachedSpritesheet digest s (bodyTypeName def) (Some ls) (toBuffer cv))
                        = None))))"
proof -
  let ?run = "preGenerate digest blend sprites toBuffer"
  let ?item = "preGenerateItem digest blend sprites toBuffer"
  let ?init = "\<lambda>d. \<lparr>store = d, results = [], generated = 0, alreadyCached = 0, failed = 0\<rparr>"
  define g1 a1 f1 rs1 s where "g1 = generated (foldl ?item (?init d) xs)"
    and "a1 = alreadyCached (foldl ?item (?init d) xs)"
    and "f1 = failed (foldl ?item (?init d) xs)"
    and "rs1 = results (foldl ?item (?init d) xs)"
    and "s = store (foldl ?item (?init d) xs)"
  have r1: "?run d (map Some xs) = (Report (length xs) g1 a1 f1 rs1, s)"
    unfolding g1_def a1_def f1_def rs1_def s_def by (rule preGenerate_objects)
  have c1: "length rs1 = length xs" "g1 + a1 + f1 = length xs"
    unfolding g1_def a1_def f1_def rs1_def
    using foldl_preGenerateItem_counts[of digest blend sprites toBuffer d xs] by simp_all
  let ?cached = "getCachedSpritesheet digest s (bodyTypeName def) (layers def)"
  obtain g a f r s' where r2: "?run s [Some def] = (Report 1 g a f [r], s')"
    and c2: "g + a + f = 1"
    and hitc: "hit ?cached \<Longrightarrow> r = AlreadyCached (bodyTypeName def) (hash ?cached) \<and> a = 1 \<and> s' = s"
    and failc: "\<And>msg. \<not> hit ?cached \<Longrightarrow> generateSpritesheet blend sprites def = Inl (Error msg)
        \<Longrightarrow> r = Failed (bodyTypeName def) msg \<and> f = 1 \<and> s' = s"
    and genc: "\<And>cv. \<not> hit ?cached \<Longrightarrow> generateSpritesheet blend sprites def = Inr cv
        \<Longrightarrow> r = Generated (bodyTypeName def)
                 (fst (saveCachedSpritesheet digest s (bodyTypeName def) (layers def) (toBuffer cv)))
                 (length (toBuffer cv))
           \<and> g = 1
           \<and> s' = snd (saveCachedSpritesheet digest s (bodyTypeName def) (layers def) (toBuffer cv))"
    using preGenerate_single[of digest blend sprites toBuffer s "def"] by blast
  define g2 a2 f2 rs2 d' where "g2 = generated (foldl ?item (?init s') ys)"
    and "a2 = alreadyCached (foldl ?item (?init s') ys)"
    and "f2 = failed (foldl ?item (?init s') ys)"
    and "rs2 = results (foldl ?item (?init s') ys)"
    and "d' = store (foldl ?item (?init s') ys)"
  have r3: "?run s' (map Some ys) = (Report (length ys) g2 a2 f2 rs2, d')"
    unfolding g2_def a2_def f2_def rs2_def d'_def by (rule preGenerate_objects)
  have c3: "length rs2 = length ys" "g2 + a2 + f2 = length ys"
    unfolding g2_def a2_def f2_def rs2_def
    using foldl_preGenerateItem_counts[of digest blend sprites toBuffer s' ys] by simp_all
  have r2': "?run s (map Some [def]) = (Report 1 g a f [r], s')"
    using r2 by simp
  have r23: "?run s (map Some ([def] @ ys))
      = (Report (1 + length ys) (g + g2) (a + a2) (f + f2) ([r] @ rs2), d')"
    by (rule preGenerate_append[OF r2' r3])
  have r123: "?run d (map Some (xs @ ([def] @ ys)))
      = (Report (length xs + (1 + length ys)) (g1 + (g + g2)) (a1 + (a + a2)) (f1 + (f + f2))
           (rs1 @ ([r] @ rs2)), d')"
    by (rule preGenerate_append[OF r1 r23])
  have r4: "?run d (map Some (xs @ def # ys))
       = (Report (length xs + 1 + length ys) (g1 + g + g2) (a1 + a + a2) (f1 + f + f2)
            (rs1 @ r # rs2), d')"
    using r123 by (simp add: add.assoc)
  have sv1: "fst (saveCachedSpritesheet digest s (bodyTypeName def) (Some ls) buf)
                = Some (generateCacheKey digest (bodyTypeName def) ls)
           \<and> map_of (files (snd (saveCachedSpritesheet digest s (bodyTypeName def) (Some ls) buf)))
                (getCachePath (generateCacheKey digest (bodyTypeName def) ls)) = Some buf"
    if "Mkdir \<notin> set (faults s)
        \<and> WriteFile (getCachePath (generateCacheKey digest (bodyTypeName def) ls)) \<notin> set (faults s)
        \<and> writtenBeforeError (faults s)
             (getCachePath (generateCacheKey digest (bodyTypeName def) ls)) = None" for ls buf
    using that by (intro saveCachedSpritesheet_ok) simp_all
  have sv2: "fst (saveCachedSpritesheet digest s (bodyTypeName def) (Some ls) buf) = None"
    if "Mkdir \<in> set (faults s)
        \<or> WriteFile (getCachePath (generateCacheKey digest (bodyTypeName def) ls)) \<in> set (faults s)
        \<or> writtenBeforeError (faults s)
             (getCachePath (generateCacheKey digest (bodyTypeName def) ls)) \<noteq> None" for ls buf
    using that by (rule saveCachedSpritesheet_fault)
  have cases: "(let cached = ?cached in
        hit cached
          = (\<exists>ls buf. layers def = Some ls
               \<and> fs_readFile s (getCachePath (generateCacheKey digest (bodyTypeName def) ls)) = Inr buf)
      \<and> (hit cached \<longrightarrow>
            r = AlreadyCached (bodyTypeName def) (hash cached) \<and> a = 1 \<and> s' = s)
      \<and> (\<not> hit cached \<longrightarrow>
            (\<forall>msg. generateSpritesheet blend sprites def = Inl (Error msg) \<longrightarrow>
               r = Failed (bodyTypeName def) msg \<and> f = 1 \<and> s' = s)
          \<and> (\<forall>cv ls. generateSpritesheet blend sprites def = Inr cv \<and> layers def = Some ls \<longrightarrow>
               r = Generated (bodyTypeName def)
                     (fst (saveCachedSpritesheet digest s (bodyTypeName def) (Some ls) (toBuffer cv)))
                     (length (toBuffer cv))
               \<and> g = 1
               \<and> s' = snd (saveCachedSpritesheet digest s (bodyTypeName def) (Some ls) (toBuffer cv))
               \<and> (Mkdir \<notin> set (faults s)
                    \<and> WriteFile (getCachePath (generateCacheKey digest (bodyTypeName def) ls))
                         \<notin> set (faults s)
                    \<and> writtenBeforeError (faults s)
                         (getCachePath (generateCacheKey digest (bodyTypeName def) ls)) = None
                  \<longrightarrow> fst (saveCachedSpritesheet digest s (bodyTypeName def) (Some ls) (toBuffer cv))
                        = Some (generateCacheKey digest (bodyTypeName def) ls)
                    \<and> map_of (files s')
                         (getCachePath (generateCacheKey digest (bodyTypeName def) ls))
                        = Some (toBuffer cv))
               \<and> (Mkdir \<in> set (faults s)
                    \<or> WriteFile (getCachePath (generateCacheKey digest (bodyTypeName def) ls))
                         \<in> set (faults s)
                    \<or> writtenBeforeError (faults s)
                         (getCachePath (generateCacheKey digest (bodyTypeName def) ls)) \<noteq> None
                  \<longrightarrow> fst (saveCachedSpritesheet digest s (bodyTypeName def) (Some ls) (toBuffer cv))
                        = None))))"
    unfolding Let_def
  proof (intro conjI impI allI)
    show "hit ?cached = (\<exists>ls buf. layers def = Some ls
               \<and> fs_readFile s (getCachePath (generateCacheKey digest (bodyTypeName def) ls)) = Inr buf)"
      by (rule hit_getCachedSpritesheet)
  qed (use hitc failc genc sv1 sv2 in \<open>auto\<close>)
  show ?thesis
    using r1 r2 r3 r4 c1 c2 c3 cases by blast
qed

text \<open>A batch of a new definition, one without layers, and the first again.\<close>

theorem preGenerate_batch_witness:
  "\<forall>digest blend toBuffer.
     preGenerate digest blend (\<lambda>p a f. None) toBuffer \<lparr>files = [], faults = []\<rparr>
       [Some \<lparr>bodyTypeName = ''male'',
              layers = Some [\<lparr>fileName = ''body/light.png'', zPos = Some 10, variant = None\<rparr>]\<rparr>,
        Some \<lparr>bodyTypeName = ''male'', layers = None\<rparr>,
        Some \<lparr>bodyTypeName = ''male'',
              layers = Some [\<lparr>fileName = ''body/light.png'', zPos = Some 10, variant = None\<rparr>]\<rparr>]
     = (Report 3 1 1 1
          [Generated ''male''
             (Some (generateCacheKey digest ''male''
                      [\<lparr>fileName = ''body/light.png'', zPos = Some 10, variant = None\<rparr>]))
             (length (toBuffer \<lparr>cwidth = 832, cheight = 3456, cpixel = (\<lambda>x y. transparent)\<rparr>)),
           Failed ''male'' ''Invalid layer definition: missing bodyTypeName or layers array'',
           AlreadyCached ''male''
             (Some (generateCacheKey digest ''male''
                      [\<lparr>fileName = ''body/light.png'', zPos = Some 10, variant = None\<rparr>]))],
        \<lparr>files = [(getCachePath (generateCacheKey digest ''male''
                       [\<lparr>fileName = ''body/light.png'', zPos = Some 10, variant = None\<rparr>]),
                    toBuffer \<lparr>cwidth = 832, cheight = 3456, cpixel = (\<lambda>x y. transparent)\<rparr>)],
         faults = []\<rparr>)"
proof (intro allI)
  fix digest :: "string \<Rightarrow> string" and blend :: "rgba \<Rightarrow> rgba \<Rightarrow> rgba" and toBuffer :: "canvas \<Rightarrow> string"
  let ?none = "\<lambda>p a f. None :: image option"
  let ?ls = "[\<lparr>fileName = ''body/light.png'', zPos = Some 10, variant = None\<rparr>]"
  let ?def = "\<lparr>bodyTypeName = ''male'', layers = Some ?ls\<rparr>"
  let ?bad = "\<lparr>bodyTypeName = ''male'', layers = None\<rparr>"
  let ?d = "\<lparr>files = [], faults = []\<rparr>"
  let ?blank = "\<lparr>cwidth = 832, cheight = 3456, cpixel = (\<lambda>x y. transparent)\<rparr>"
  let ?key = "generateCacheKey digest ''male'' ?ls"
  let ?s1 = "\<lparr>files = [(getCachePath ?key, toBuffer ?blank)], faults = []\<rparr>"
  let ?run = "preGenerate digest blend ?none toBuffer"
  have gen: "generateSpritesheet blend ?none ?def = Inr ?blank"
    using generateSpritesheet_ok[of ?def ?ls blend ?none]
    by (simp add: drawRows_all_miss list_all_iff SHEET_WIDTH_def SHEET_HEIGHT_def)
  have bad: "generateSpritesheet blend ?none ?bad
      = Inl (Error ''Invalid layer definition: missing bodyTypeName or layers array'')"
    by (simp add: generateSpritesheet_def)
  have e1: "?run ?d [Some ?def]
      = (Report 1 1 0 0 [Generated ''male'' (Some ?key) (length (toBuffer ?blank))], ?s1)"
    by (simp add: preGenerate_def preGenerateItem_def getCachedSpritesheet_def fs_readFile_def gen
          saveCachedSpritesheet_def fs_mkdir_def fs_writeFile_def)
  have e3: "?run ?s1 [Some ?def] = (Report 1 0 1 0 [AlreadyCached ''male'' (Some ?key)], ?s1)"
    by (simp add: preGenerate_def preGenerateItem_def getCachedSpritesheet_def fs_readFile_def)
  have e2: "?run ?s1 [Some ?bad]
      = (Report 1 0 0 1
           [Failed ''male'' ''Invalid layer definition: missing bodyTypeName or layers array''], ?s1)"
    by (simp add: preGenerate_def preGenerateItem_def getCachedSpritesheet_def bad)
  from preGenerate_batch[of digest blend ?none toBuffer ?d "[?def]" ?bad "[?def]"]
  show "?run ?d [Some ?def, Some ?bad, Some ?def]
     = (Report 3 1 1 1
          [Generated ''male'' (Some ?key) (length (toBuffer ?blank)),
           Failed ''male'' ''Invalid layer definition: missing bodyTypeName or layers array'',
           AlreadyCached ''male'' (Some ?key)], ?s1)"
    unfolding Let_def by (elim exE conjE) (clarsimp simp: e1 e2 e3)
qed

text \<open>
  C8 as stated fails. In a directory that cannot be created the sheet is rendered and not
  stored, and the item is counted as generated. And an item \<open>null\<close> ends the loop: the
  response is the status 500 with no report, and the definition after it is not processed.
\<close>

theorem preGenerate_counterexample:
  "\<forall>digest blend toBuffer.
     preGenerate digest blend (\<lambda>p a f. None) toBuffer \<lparr>files = [], faults = [Mkdir]\<rparr>
       [Some \<lparr>bodyTypeName = ''male'',
              layers = Some [\<lparr>fileName = ''body/light.png'', zPos = Some 10, variant = None\<rparr>]\<rparr>]
     = (Report 1 1 0 0
          [Generated ''male'' None
             (length (toBuffer \<lparr>cwidth = 832, cheight = 3456, cpixel = (\<lambda>x y. transparent)\<rparr>))],
        \<lparr>files = [], faults = [Mkdir]\<rparr>)
   \<and> preGenerate digest blend (\<lambda>p a f. None) toBuffer \<lparr>files = [], faults = []\<rparr>
       [None,
        Some \<lparr>bodyTypeName = ''male'',
              layers = Some [\<lparr>fileName = ''body/light.png'', zPos = Some 10, variant = None\<rparr>]\<rparr>]
     = (ServerError ''Failed to pre-generate cache'', \<lparr>files = [], faults = []\<rparr>)"
proof (intro allI conjI)
  fix digest :: "string \<Rightarrow> string" and blend :: "rgba \<Rightarrow> rgba \<Rightarrow> rgba" and toBuffer :: "canvas \<Rightarrow> string"
  let ?none = "\<lambda>p a f. None :: image option"
  let ?ls = "[\<lparr>fileName = ''body/light.png'', zPos = Some 10, variant = None\<rparr>]"
  let ?def = "\<lparr>bodyTypeName = ''male'', layers = Some ?ls\<rparr>"
  let ?blank = "\<lparr>cwidth = 832, cheight = 3456, cpixel = (\<lambda>x y. transparent)\<rparr>"
  have gen: "generateSpritesheet blend ?none ?def = Inr ?blank"
    using generateSpritesheet_ok[of ?def ?ls blend ?none]
    by (simp add: drawRows_all_miss list_all_iff SHEET_WIDTH_def SHEET_HEIGHT_def)
  show "preGenerate digest blend ?none toBuffer \<lparr>files = [], faults = [Mkdir]\<rparr> [Some ?def]
     = (Report 1 1 0 0 [Generated ''male'' None (length (toBuffer ?blank))],
        \<lparr>files = [], faults = [Mkdir]\<rparr>)"
    by (simp add: preGenerate_def preGenerateItem_def getCachedSpritesheet_def fs_readFile_def gen
          saveCachedSpritesheet_def fs_mkdir_def)
  show "preGenerate digest blend ?none toBuffer \<lparr>files = [], faults = []\<rparr> [None, Some ?def]
     = (ServerError ''Failed to pre-generate cache'', \<lparr>files = [], faults = []\<rparr>)"
    by (simp add: preGenerate_def)
qed

end
